theory Spec2Isabelle
  imports Main
begin

section \<open>JSON values, dictionaries and documents\<close>

text \<open>
  The two storage classes keep every entity as a Python \<^verbatim>\<open>dict\<close> read from a JSON file.
  A value of such a dictionary is null, a boolean, an integer, a string or a list; a
  dictionary is a map from its keys to these values, so that a key that is absent
  (\<open>d k = None\<close>) differs from a key that holds null (\<open>d k = Some JNull\<close>), as
  \<^verbatim>\<open>dict.get\<close> sees it. A \<open>char\<close> stands for one character of a Python \<^verbatim>\<open>str\<close>.
  Fractional numbers and dictionaries nested in an entity are written by no operation
  and are left out of the value type.
\<close>

datatype jval = JNull | JBool bool | JInt int | JStr string | JList "jval list"

type_synonym obj = "string \<rightharpoonup> jval"

text \<open>A document is the root dictionary of a file: collection name to list of entities.\<close>

type_synonym doc = "string \<rightharpoonup> obj list"

datatype error =
    TypeError
  | ValueError
  | AttributeError
  | JSONDecodeError
  | UnicodeDecodeError
  | RecursionError
  | FileNotFoundError
  | PermissionError
  | HTTPException nat

text \<open>\<^verbatim>\<open>d.get(k, default)\<close> and \<^verbatim>\<open>d.get(k)\<close>.\<close>

definition dict_get_d :: "obj \<Rightarrow> string \<Rightarrow> jval \<Rightarrow> jval" where
  "dict_get_d d k dflt = (case d k of None \<Rightarrow> dflt | Some v \<Rightarrow> v)"

definition dict_get :: "obj \<Rightarrow> string \<Rightarrow> jval" where
  "dict_get d k = dict_get_d d k JNull"

text \<open>\<^verbatim>\<open>data.get(name, [])\<close> on the document.\<close>

definition coll :: "doc \<Rightarrow> string \<Rightarrow> obj list" where
  "coll data name = (case data name of None \<Rightarrow> [] | Some xs \<Rightarrow> xs)"

text \<open>Python's truth value of a JSON value.\<close>

fun truthy :: "jval \<Rightarrow> bool" where
  "truthy JNull = False"
| "truthy (JBool b) = b"
| "truthy (JInt n) = (n \<noteq> 0)"
| "truthy (JStr s) = (s \<noteq> [])"
| "truthy (JList xs) = (xs \<noteq> [])"

text \<open>
  Integer arithmetic on a stored value: an \<^verbatim>\<open>int\<close> is itself, a \<^verbatim>\<open>bool\<close> counts as 0 or 1,
  and anything else makes \<^verbatim>\<open>+\<close> and \<^verbatim>\<open>-\<close> with an integer raise \<^verbatim>\<open>TypeError\<close>.
\<close>

fun py_int :: "jval \<Rightarrow> error + int" where
  "py_int (JInt n) = Inr n"
| "py_int (JBool b) = Inr (if b then 1 else 0)"
| "py_int v = Inl TypeError"

text \<open>
  \<^verbatim>\<open>next((i for i, x in enumerate(xs) if P(x)), None)\<close>: the index of the first element
  that satisfies \<open>P\<close>.
\<close>

fun index_of :: "('a \<Rightarrow> bool) \<Rightarrow> 'a list \<Rightarrow> nat option" where
  "index_of P [] = None"
| "index_of P (x # xs) = (if P x then Some 0 else map_option Suc (index_of P xs))"

text \<open>\<^verbatim>\<open>xs.pop(i)\<close> for an index in range, as the list it leaves.\<close>

definition pop :: "'a list \<Rightarrow> nat \<Rightarrow> 'a list" where
  "pop xs i = take i xs @ drop (Suc i) xs"

text \<open>The test \<^verbatim>\<open>x.get("id") == ident\<close> against a string.\<close>

definition has_id :: "string \<Rightarrow> obj \<Rightarrow> bool" where
  "has_id ident x = (dict_get x ''id'' = JStr ident)"

section \<open>The file store\<close>

text \<open>
  The state of a store is its one file, as the two ways of opening it see it.

  Opened for reading and passed to \<^verbatim>\<open>json.load\<close>, the file is absent (\<^verbatim>\<open>FileNotFoundError\<close>),
  or holds contents that \<^verbatim>\<open>json.load\<close> cannot decode, or holds a document. The contents that
  fail to decode fail in one of three ways: text that is no JSON raises
  \<^verbatim>\<open>JSONDecodeError\<close>, bytes that are no UTF-8 raise \<^verbatim>\<open>UnicodeDecodeError\<close>, and nesting deeper
  than the interpreter's recursion limit raises \<^verbatim>\<open>RecursionError\<close>.

  Opened for writing, the file either takes the new document or the \<^verbatim>\<open>open\<close> raises and
  the file stays as it is: \<^verbatim>\<open>FileNotFoundError\<close> when the data directory is gone,
  \<^verbatim>\<open>PermissionError\<close> when the file may not be written. The second component of a file is
  that error, \<open>None\<close> when writing succeeds.

  Every operation takes the file and returns its outcome together with the file as it
  leaves it: \<open>Inl\<close> an exception that reached the caller, \<open>Inr\<close> the returned value.
\<close>

datatype decode_failure = NotJSON | NotUTF8 | TooDeep

datatype contents = Absent | Garbage decode_failure string | Document doc

datatype jfile = File contents "error option"

text \<open>A file that holds a document and can be written, and a writable place with no file.\<close>

abbreviation Stored :: "doc \<Rightarrow> jfile" where
  "Stored d \<equiv> File (Document d) None"

abbreviation Missing :: jfile where
  "Missing \<equiv> File Absent None"

text \<open>\<^verbatim>\<open>open(path, 'r')\<close> followed by \<^verbatim>\<open>json.load\<close>.\<close>

fun read_json :: "jfile \<Rightarrow> error + doc" where
  "read_json (File Absent w) = Inl FileNotFoundError"
| "read_json (File (Garbage NotJSON text) w) = Inl JSONDecodeError"
| "read_json (File (Garbage NotUTF8 text) w) = Inl UnicodeDecodeError"
| "read_json (File (Garbage TooDeep text) w) = Inl RecursionError"
| "read_json (File (Document d) w) = Inr d"

text \<open>\<^verbatim>\<open>open(path, 'w')\<close> followed by \<^verbatim>\<open>json.dump\<close>.\<close>

fun save_data :: "doc \<Rightarrow> jfile \<Rightarrow> error + jfile" where
  "save_data data (File c None) = Inr (File (Document data) None)"
| "save_data data (File c (Some e)) = Inl e"

text \<open>
  The end of every operation that writes: \<^verbatim>\<open>self.save_data(data)\<close>, then \<^verbatim>\<open>return r\<close>. An
  error of the write reaches the caller in place of the value.
\<close>

definition save_then_return :: "doc \<Rightarrow> jfile \<Rightarrow> 'a \<Rightarrow> (error + 'a) \<times> jfile" where
  "save_then_return data f r =
     (case save_data data f of
        Inl e \<Rightarrow> (Inl e, f)
      | Inr f' \<Rightarrow> (Inr r, f'))"

subsection \<open>Ideas store\<close>

definition ideas_initial_data :: doc where
  "ideas_initial_data =
     [''ideas'' \<mapsto> [], ''comments'' \<mapsto> [], ''likes'' \<mapsto> [], ''tags'' \<mapsto> []]"

definition IdeasFileStorage_initialize_file :: "jfile \<Rightarrow> error + jfile" where
  "IdeasFileStorage_initialize_file f = save_data ideas_initial_data f"

text \<open>
  The \<^verbatim>\<open>except\<close> clause of \<open>load_data\<close> catches \<^verbatim>\<open>JSONDecodeError\<close> and
  \<^verbatim>\<open>FileNotFoundError\<close>; any other error goes to the caller. The handler writes the empty
  document, and an error of that write leaves the handler too.
\<close>

definition IdeasFileStorage_load_data :: "jfile \<Rightarrow> (error + doc) \<times> jfile" where
  "IdeasFileStorage_load_data f =
     (case read_json f of
        Inr d \<Rightarrow> (Inr d, f)
      | Inl e \<Rightarrow>
          if e = JSONDecodeError \<or> e = FileNotFoundError
          then (case IdeasFileStorage_initialize_file f of
                  Inl e' \<Rightarrow> (Inl e', f)
                | Inr f' \<Rightarrow> (Inr ideas_initial_data, f'))
          else (Inl e, f))"

text \<open>
  \<open>get_idea\<close> returns the idea with its \<^verbatim>\<open>userLiked\<close> flag and comment count, and beside
  it the list stored under \<^verbatim>\<open>comments_list\<close>. The idea it finds has an \<^verbatim>\<open>id\<close> entry, so
  \<^verbatim>\<open>not idea\<close> holds exactly when nothing was found.
\<close>

definition IdeasFileStorage_get_idea ::
  "string \<Rightarrow> string option \<Rightarrow> jfile \<Rightarrow> (error + (obj \<times> obj list) option) \<times> jfile" where
  "IdeasFileStorage_get_idea idea_id current_user_id f =
     (case IdeasFileStorage_load_data f of
        (Inl e, f1) \<Rightarrow> (Inl e, f1)
      | (Inr data, f1) \<Rightarrow>
          let ideas = coll data ''ideas'';
              likes = coll data ''likes'';
              comments = coll data ''comments''
          in case find (has_id idea_id) ideas of
               None \<Rightarrow> (Inr None, f1)
             | Some idea \<Rightarrow>
                 let user_liked =
                       (case current_user_id of
                          None \<Rightarrow> False
                        | Some u \<Rightarrow>
                            u \<noteq> [] \<and>
                            list_ex (\<lambda>like. dict_get like ''idea_id'' = JStr idea_id \<and>
                                             dict_get like ''user_id'' = JStr u) likes);
                     idea_comments =
                       filter (\<lambda>c. dict_get c ''idea_id'' = JStr idea_id) comments
                 in (Inr (Some (idea(''userLiked'' \<mapsto> JBool user_liked,
                                     ''comments'' \<mapsto> JInt (int (length idea_comments))),
                                idea_comments)),
                     f1))"

text \<open>
  \<open>uuid\<close> and \<open>today\<close> are what \<^verbatim>\<open>uuid.uuid4()\<close> and \<^verbatim>\<open>datetime.now()\<close> give during the call.
\<close>

definition IdeasFileStorage_create_idea ::
  "string \<Rightarrow> string \<Rightarrow> obj \<Rightarrow> jfile \<Rightarrow> (error + obj) \<times> jfile" where
  "IdeasFileStorage_create_idea uuid today idea_data f =
     (case IdeasFileStorage_load_data f of
        (Inl e, f1) \<Rightarrow> (Inl e, f1)
      | (Inr data, f1) \<Rightarrow>
          let ideas = coll data ''ideas'';
              d1 = (if idea_data ''id'' = None then idea_data(''id'' \<mapsto> JStr uuid)
                    else idea_data);
              d2 = (if d1 ''date'' = None then d1(''date'' \<mapsto> JStr today) else d1);
              d3 = (if d2 ''likes'' = None then d2(''likes'' \<mapsto> JInt 0) else d2);
              d4 = (if d3 ''tags'' = None then d3(''tags'' \<mapsto> JList []) else d3)
          in save_then_return (data(''ideas'' \<mapsto> ideas @ [d4])) f1
                   (d4(''userLiked'' \<mapsto> JBool False, ''comments'' \<mapsto> JInt 0)))"

definition IdeasFileStorage_update_idea ::
  "string \<Rightarrow> obj \<Rightarrow> jfile \<Rightarrow> (error + obj option) \<times> jfile" where
  "IdeasFileStorage_update_idea idea_id idea_data f =
     (case IdeasFileStorage_load_data f of
        (Inl e, f1) \<Rightarrow> (Inl e, f1)
      | (Inr data, f1) \<Rightarrow>
          let ideas = coll data ''ideas'';
              comments = coll data ''comments''
          in case index_of (has_id idea_id) ideas of
               None \<Rightarrow> (Inr None, f1)
             | Some idea_index \<Rightarrow>
                 let current_idea = ideas ! idea_index;
                     updated_idea = current_idea ++ idea_data;
                     idea_comments =
                       length (filter (\<lambda>c. dict_get c ''idea_id'' = JStr idea_id) comments)
                 in save_then_return (data(''ideas'' \<mapsto> ideas[idea_index := updated_idea])) f1
                   (Some (updated_idea(''comments'' \<mapsto> JInt (int idea_comments)))))"

definition IdeasFileStorage_delete_idea ::
  "string \<Rightarrow> jfile \<Rightarrow> (error + bool) \<times> jfile" where
  "IdeasFileStorage_delete_idea idea_id f =
     (case IdeasFileStorage_load_data f of
        (Inl e, f1) \<Rightarrow> (Inl e, f1)
      | (Inr data, f1) \<Rightarrow>
          let ideas = coll data ''ideas'';
              comments = coll data ''comments'';
              likes = coll data ''likes''
          in case index_of (has_id idea_id) ideas of
               None \<Rightarrow> (Inr False, f1)
             | Some idea_index \<Rightarrow>
                 let ideas' = pop ideas idea_index;
                     comments' = filter (\<lambda>c. dict_get c ''idea_id'' \<noteq> JStr idea_id) comments;
                     likes' = filter (\<lambda>l. dict_get l ''idea_id'' \<noteq> JStr idea_id) likes
                 in save_then_return (data(''ideas'' \<mapsto> ideas', ''comments'' \<mapsto> comments', ''likes'' \<mapsto> likes')) f1 True)"

text \<open>The test that finds the Like row of a user on an idea.\<close>

definition like_of :: "string \<Rightarrow> string \<Rightarrow> obj \<Rightarrow> bool" where
  "like_of idea_id user_id like =
     (dict_get like ''idea_id'' = JStr idea_id \<and> dict_get like ''user_id'' = JStr user_id)"

text \<open>
  \<open>toggle_like\<close>: the counter is read with \<^verbatim>\<open>idea.get("likes", 0)\<close>, so a stored value that
  is no number raises before anything is saved.
\<close>

definition IdeasFileStorage_toggle_like ::
  "string \<Rightarrow> string \<Rightarrow> string \<Rightarrow> string \<Rightarrow> jfile \<Rightarrow> (error + obj option) \<times> jfile" where
  "IdeasFileStorage_toggle_like uuid now idea_id user_id f =
     (case IdeasFileStorage_load_data f of
        (Inl e, f1) \<Rightarrow> (Inl e, f1)
      | (Inr data, f1) \<Rightarrow>
          let ideas = coll data ''ideas'';
              likes = coll data ''likes'';
              comments = coll data ''comments''
          in case index_of (has_id idea_id) ideas of
               None \<Rightarrow> (Inr None, f1)
             | Some idea_index \<Rightarrow>
                 let idea = ideas ! idea_index
                 in case py_int (dict_get_d idea ''likes'' (JInt 0)) of
                      Inl e \<Rightarrow> (Inl e, f1)
                    | Inr n \<Rightarrow>
                        let (likes', idea', user_liked) =
                              (case index_of (like_of idea_id user_id) likes of
                                 Some like_index \<Rightarrow>
                                   (pop likes like_index,
                                    idea(''likes'' \<mapsto> JInt (max 0 (n - 1))),
                                    False)
                               | None \<Rightarrow>
                                   (likes @ [[''id'' \<mapsto> JStr uuid,
                                              ''user_id'' \<mapsto> JStr user_id,
                                              ''idea_id'' \<mapsto> JStr idea_id,
                                              ''created_at'' \<mapsto> JStr now]],
                                    idea(''likes'' \<mapsto> JInt (n + 1)),
                                    True));
                            idea_comments =
                              length (filter (\<lambda>c. dict_get c ''idea_id'' = JStr idea_id)
                                        comments)
                        in save_then_return (data(''ideas'' \<mapsto> ideas[idea_index := idea'], ''likes'' \<mapsto> likes')) f1
                   (Some (idea'(''userLiked'' \<mapsto> JBool user_liked, ''comments'' \<mapsto> JInt (int idea_comments)))))"

definition IdeasFileStorage_add_comment ::
  "string \<Rightarrow> string \<Rightarrow> string \<Rightarrow> obj \<Rightarrow> jfile \<Rightarrow> (error + obj option) \<times> jfile" where
  "IdeasFileStorage_add_comment uuid today idea_id comment_data f =
     (case IdeasFileStorage_load_data f of
        (Inl e, f1) \<Rightarrow> (Inl e, f1)
      | (Inr data, f1) \<Rightarrow>
          let ideas = coll data ''ideas'';
              comments = coll data ''comments''
          in case find (has_id idea_id) ideas of
               None \<Rightarrow> (Inr None, f1)
             | Some idea \<Rightarrow>
                 let c1 = comment_data(''idea_id'' \<mapsto> JStr idea_id);
                     c2 = (if c1 ''id'' = None then c1(''id'' \<mapsto> JStr uuid) else c1);
                     c3 = (if c2 ''date'' = None then c2(''date'' \<mapsto> JStr today) else c2)
                 in save_then_return (data(''comments'' \<mapsto> comments @ [c3])) f1
                   (Some c3))"

subsection \<open>Ideas routes\<close>

text \<open>
  The request bodies as pydantic has parsed them (defaults filled in). An optional field
  that the request leaves out, or sends as null, is \<open>None\<close>. Field names carry the
  initials of their class.
\<close>

record IdeaCreate =
  ic_title :: string
  ic_description :: string
  ic_author :: string
  ic_tags :: "string list"

record IdeaUpdate =
  iu_title :: "string option"
  iu_description :: "string option"
  iu_tags :: "string list option"

record CommentCreate =
  cc_content :: string
  cc_author :: string

text \<open>
  A route raises \<^verbatim>\<open>HTTPException(status_code=404)\<close> as \<open>Inl (HTTPException 404)\<close>. \<open>uuid\<close> and
  \<open>now\<close> are the values \<^verbatim>\<open>uuid.uuid4()\<close> and the formatted clock give during the request.
\<close>

definition ideas_router_get_idea ::
  "string \<Rightarrow> jfile \<Rightarrow> (error + (obj \<times> obj list)) \<times> jfile" where
  "ideas_router_get_idea idea_id f =
     (case IdeasFileStorage_get_idea idea_id None f of
        (Inl e, f1) \<Rightarrow> (Inl e, f1)
      | (Inr None, f1) \<Rightarrow> (Inl (HTTPException 404), f1)
      | (Inr (Some idea), f1) \<Rightarrow> (Inr idea, f1))"

definition ideas_router_create_idea ::
  "string \<Rightarrow> string \<Rightarrow> IdeaCreate \<Rightarrow> jfile \<Rightarrow> (error + obj) \<times> jfile" where
  "ideas_router_create_idea uuid now idea f =
     (let new_idea =
            [''id'' \<mapsto> JStr uuid,
             ''title'' \<mapsto> JStr (ic_title idea),
             ''description'' \<mapsto> JStr (ic_description idea),
             ''author'' \<mapsto> JStr (ic_author idea),
             ''date'' \<mapsto> JStr now,
             ''likes'' \<mapsto> JInt 0,
             ''tags'' \<mapsto> JList (map JStr (ic_tags idea)),
             ''userLiked'' \<mapsto> JBool False]
      in IdeasFileStorage_create_idea uuid now new_idea f)"

text \<open>The dictionary \<^verbatim>\<open>updates\<close> that \<open>update_idea\<close> builds from the request.\<close>

definition idea_updates :: "IdeaUpdate \<Rightarrow> obj" where
  "idea_updates idea_update =
     (let u0 = Map.empty;
          u1 = (case iu_title idea_update of
                  None \<Rightarrow> u0 | Some t \<Rightarrow> u0(''title'' \<mapsto> JStr t));
          u2 = (case iu_description idea_update of
                  None \<Rightarrow> u1 | Some d \<Rightarrow> u1(''description'' \<mapsto> JStr d));
          u3 = (case iu_tags idea_update of
                  None \<Rightarrow> u2 | Some ts \<Rightarrow> u2(''tags'' \<mapsto> JList (map JStr ts)))
      in u3)"

definition ideas_router_update_idea ::
  "string \<Rightarrow> IdeaUpdate \<Rightarrow> jfile \<Rightarrow> (error + obj) \<times> jfile" where
  "ideas_router_update_idea idea_id idea_update f =
     (case IdeasFileStorage_get_idea idea_id None f of
        (Inl e, f1) \<Rightarrow> (Inl e, f1)
      | (Inr None, f1) \<Rightarrow> (Inl (HTTPException 404), f1)
      | (Inr (Some idea), f1) \<Rightarrow>
          (case IdeasFileStorage_update_idea idea_id (idea_updates idea_update) f1 of
             (Inl e, f2) \<Rightarrow> (Inl e, f2)
           | (Inr None, f2) \<Rightarrow> (Inl (HTTPException 404), f2)
           | (Inr (Some updated_idea), f2) \<Rightarrow> (Inr updated_idea, f2)))"

definition ideas_router_delete_idea ::
  "string \<Rightarrow> jfile \<Rightarrow> (error + unit) \<times> jfile" where
  "ideas_router_delete_idea idea_id f =
     (case IdeasFileStorage_get_idea idea_id None f of
        (Inl e, f1) \<Rightarrow> (Inl e, f1)
      | (Inr None, f1) \<Rightarrow> (Inl (HTTPException 404), f1)
      | (Inr (Some idea), f1) \<Rightarrow>
          (case IdeasFileStorage_delete_idea idea_id f1 of
             (Inl e, f2) \<Rightarrow> (Inl e, f2)
           | (Inr result, f2) \<Rightarrow>
               if \<not> result then (Inl (HTTPException 404), f2) else (Inr (), f2)))"

text \<open>
  The like route: \<open>user_id\<close> is the query parameter, \<open>None\<close> when the request has none;
  its default is the string \<^verbatim>\<open>anonymous\<close>.
\<close>

definition ideas_router_toggle_like ::
  "string \<Rightarrow> string \<Rightarrow> string \<Rightarrow> string option \<Rightarrow> jfile \<Rightarrow> (error + obj) \<times> jfile" where
  "ideas_router_toggle_like uuid now idea_id user_id f =
     (case IdeasFileStorage_get_idea idea_id None f of
        (Inl e, f1) \<Rightarrow> (Inl e, f1)
      | (Inr None, f1) \<Rightarrow> (Inl (HTTPException 404), f1)
      | (Inr (Some idea), f1) \<Rightarrow>
          (case IdeasFileStorage_toggle_like uuid now idea_id
                  (case user_id of None \<Rightarrow> ''anonymous'' | Some u \<Rightarrow> u) f1 of
             (Inl e, f2) \<Rightarrow> (Inl e, f2)
           | (Inr None, f2) \<Rightarrow> (Inl (HTTPException 404), f2)
           | (Inr (Some updated_idea), f2) \<Rightarrow> (Inr updated_idea, f2)))"

definition ideas_router_add_comment ::
  "string \<Rightarrow> string \<Rightarrow> string \<Rightarrow> CommentCreate \<Rightarrow> jfile \<Rightarrow> (error + obj) \<times> jfile" where
  "ideas_router_add_comment uuid now idea_id comment f =
     (case IdeasFileStorage_get_idea idea_id None f of
        (Inl e, f1) \<Rightarrow> (Inl e, f1)
      | (Inr None, f1) \<Rightarrow> (Inl (HTTPException 404), f1)
      | (Inr (Some idea), f1) \<Rightarrow>
          (let new_comment =
                 [''id'' \<mapsto> JStr uuid,
                  ''content'' \<mapsto> JStr (cc_content comment),
                  ''author'' \<mapsto> JStr (cc_author comment),
                  ''idea_id'' \<mapsto> JStr idea_id,
                  ''date'' \<mapsto> JStr now]
           in case IdeasFileStorage_add_comment uuid now idea_id new_comment f1 of
                (Inl e, f2) \<Rightarrow> (Inl e, f2)
              | (Inr None, f2) \<Rightarrow> (Inl (HTTPException 404), f2)
              | (Inr (Some c), f2) \<Rightarrow> (Inr c, f2)))"

text \<open>
  The states of the ideas file that the routes reach from the empty document, which the
  startup event writes with \<open>initialize_file\<close>. Every request moves the file to the state
  its route leaves, whatever the response.
\<close>

inductive ideas_reachable :: "jfile \<Rightarrow> bool" where
  startup: "IdeasFileStorage_initialize_file f = Inr f0 \<Longrightarrow> ideas_reachable f0"
| create: "ideas_reachable f \<Longrightarrow>
           ideas_reachable (snd (ideas_router_create_idea uuid now idea f))"
| update: "ideas_reachable f \<Longrightarrow>
           ideas_reachable (snd (ideas_router_update_idea idea_id idea_update f))"
| delete: "ideas_reachable f \<Longrightarrow>
           ideas_reachable (snd (ideas_router_delete_idea idea_id f))"
| toggle: "ideas_reachable f \<Longrightarrow>
           ideas_reachable (snd (ideas_router_toggle_like uuid now idea_id user_id f))"
| comment: "ideas_reachable f \<Longrightarrow>
            ideas_reachable (snd (ideas_router_add_comment uuid now idea_id c f))"

subsection \<open>Posts store\<close>

definition posts_initial_data :: doc where
  "posts_initial_data = [''posts'' \<mapsto> [], ''post_comments'' \<mapsto> [], ''tags'' \<mapsto> []]"

definition PostsFileStorage_initialize_file :: "jfile \<Rightarrow> error + jfile" where
  "PostsFileStorage_initialize_file f = save_data posts_initial_data f"

definition PostsFileStorage_load_data :: "jfile \<Rightarrow> (error + doc) \<times> jfile" where
  "PostsFileStorage_load_data f =
     (case read_json f of
        Inr d \<Rightarrow> (Inr d, f)
      | Inl e \<Rightarrow>
          if e = JSONDecodeError \<or> e = FileNotFoundError
          then (case PostsFileStorage_initialize_file f of
                  Inl e' \<Rightarrow> (Inl e', f)
                | Inr f' \<Rightarrow> (Inr posts_initial_data, f'))
          else (Inl e, f))"

text \<open>
  What \<open>get_posts\<close> needs of Python: \<^verbatim>\<open>str.lower\<close>, the substring test \<^verbatim>\<open>s in t\<close>, membership
  \<^verbatim>\<open>tag in tags\<close> (elementwise on a list, substring on a string, \<^verbatim>\<open>TypeError\<close> otherwise), the
  keys of the grouping dictionary (a list is unhashable; \<^verbatim>\<open>True == 1\<close> and \<^verbatim>\<open>False == 0\<close>), and
  slicing.

  \<^verbatim>\<open>str.lower\<close> is the standard library's, with Unicode's case mapping: on strings it is
  the parameter \<open>lower\<close> of the listing. A value that is no string has no such method.
\<close>

fun py_lower :: "(string \<Rightarrow> string) \<Rightarrow> jval \<Rightarrow> error + string" where
  "py_lower lower (JStr s) = Inr (lower s)"
| "py_lower lower v = Inl AttributeError"

fun str_in :: "string \<Rightarrow> string \<Rightarrow> bool" where
  "str_in s [] = (s = [])"
| "str_in s (c # cs) = (take (length s) (c # cs) = s \<or> str_in s cs)"

fun py_in :: "string \<Rightarrow> jval \<Rightarrow> error + bool" where
  "py_in s (JList xs) = Inr (List.member xs (JStr s))"
| "py_in s (JStr t) = Inr (str_in s t)"
| "py_in s v = Inl TypeError"

fun hashable :: "jval \<Rightarrow> bool" where
  "hashable (JList xs) = False"
| "hashable v = True"

fun py_eq :: "jval \<Rightarrow> jval \<Rightarrow> bool" where
  "py_eq (JBool b) (JInt n) = (n = (if b then 1 else 0))"
| "py_eq (JInt n) (JBool b) = (n = (if b then 1 else 0))"
| "py_eq v w = (v = w)"

definition py_slice :: "'a list \<Rightarrow> int \<Rightarrow> int \<Rightarrow> 'a list" where
  "py_slice xs start stop =
     (let n = int (length xs);
          a = (if start < 0 then max 0 (start + n) else min start n);
          b = (if stop < 0 then max 0 (stop + n) else min stop n)
      in take (nat (b - a)) (drop (nat a) xs))"

text \<open>
  The search test of \<open>get_posts\<close>, with its short-circuit order: \<open>Inr True\<close> when the post
  is skipped. \<open>search_term\<close> is the lowered search string.
\<close>

definition search_skips :: "(string \<Rightarrow> string) \<Rightarrow> string \<Rightarrow> obj \<Rightarrow> error + bool" where
  "search_skips lower search_term post =
     (case py_lower lower (dict_get_d post ''title'' (JStr [])) of
        Inl e \<Rightarrow> Inl e
      | Inr t \<Rightarrow>
          if str_in search_term t then Inr False
          else (case py_lower lower (dict_get_d post ''content'' (JStr [])) of
                  Inl e \<Rightarrow> Inl e
                | Inr c \<Rightarrow>
                    if str_in search_term c then Inr False
                    else if dict_get post ''excerpt'' = JNull then Inr True
                    else (case py_lower lower (dict_get post ''excerpt'') of
                            Inl e \<Rightarrow> Inl e
                          | Inr x \<Rightarrow> Inr (\<not> str_in search_term x))))"

text \<open>
  The filter loop of \<open>get_posts\<close> on one post: \<open>Inr None\<close> when the post is skipped,
  \<open>Inr (Some p)\<close> with the post and its comment count when it is kept.
\<close>

definition filter_post ::
  "(string \<Rightarrow> string) \<Rightarrow> obj list \<Rightarrow> string option \<Rightarrow> string option \<Rightarrow> bool \<Rightarrow> obj
     \<Rightarrow> error + obj option" where
  "filter_post lower post_comments search tag published_only post =
     (if published_only \<and> \<not> truthy (dict_get_d post ''is_published'' (JBool False))
      then Inr None
      else
        case (if search \<noteq> None \<and> search \<noteq> Some []
              then search_skips lower (lower (the search)) post else Inr False) of
          Inl e \<Rightarrow> Inl e
        | Inr True \<Rightarrow> Inr None
        | Inr False \<Rightarrow>
            (case (if tag \<noteq> None \<and> tag \<noteq> Some []
                   then py_in (the tag) (dict_get_d post ''tags'' (JList []))
                   else Inr True) of
               Inl e \<Rightarrow> Inl e
             | Inr False \<Rightarrow> Inr None
             | Inr True \<Rightarrow>
                 if \<not> hashable (dict_get post ''id'') then Inl TypeError
                 else Inr (Some (post(''comments_count'' \<mapsto>
                        JInt (int (length (filter
                          (\<lambda>c. py_eq (dict_get c ''post_id'') (dict_get post ''id''))
                          post_comments))))))))"

fun filter_posts ::
  "(string \<Rightarrow> string) \<Rightarrow> obj list \<Rightarrow> string option \<Rightarrow> string option \<Rightarrow> bool \<Rightarrow> obj list
     \<Rightarrow> error + obj list" where
  "filter_posts lower post_comments search tag published_only [] = Inr []"
| "filter_posts lower post_comments search tag published_only (post # posts) =
     (case filter_post lower post_comments search tag published_only post of
        Inl e \<Rightarrow> Inl e
      | Inr r \<Rightarrow>
          (case filter_posts lower post_comments search tag published_only posts of
             Inl e \<Rightarrow> Inl e
           | Inr rest \<Rightarrow> Inr ((case r of None \<Rightarrow> [] | Some p \<Rightarrow> [p]) @ rest)))"

text \<open>
  The sort key. \<^verbatim>\<open>datetime.fromisoformat\<close> is the standard library's: it raises \<^verbatim>\<open>TypeError\<close>
  on an argument that is no string and \<^verbatim>\<open>ValueError\<close> on a string it cannot parse. Its
  parsing of a string is the parameter \<open>parse\<close>: whether the stamp carries a UTC offset,
  and its instant in a linearly ordered type.
\<close>

definition fromisoformat :: "(string \<Rightarrow> (bool \<times> 't) option) \<Rightarrow> jval \<Rightarrow> error + (bool \<times> 't)" where
  "fromisoformat parse v =
     (case v of
        JStr s \<Rightarrow> (case parse s of None \<Rightarrow> Inl ValueError | Some t \<Rightarrow> Inr t)
      | _ \<Rightarrow> Inl TypeError)"

definition sort_key_of :: "(string \<Rightarrow> (bool \<times> 't) option) \<Rightarrow> obj \<Rightarrow> error + (bool \<times> 't)" where
  "sort_key_of parse x =
     fromisoformat parse
       (dict_get_d x ''published_at''
          (dict_get_d x ''created_at'' (JStr ''2000-01-01T00:00:00'')))"

text \<open>\<^verbatim>\<open>list.sort\<close> first computes the key of every element, in order.\<close>

fun sort_keys ::
  "(string \<Rightarrow> (bool \<times> 't) option) \<Rightarrow> obj list \<Rightarrow> error + ((bool \<times> 't) \<times> obj) list" where
  "sort_keys parse [] = Inr []"
| "sort_keys parse (x # xs) =
     (case sort_key_of parse x of
        Inl e \<Rightarrow> Inl e
      | Inr k \<Rightarrow>
          (case sort_keys parse xs of
             Inl e \<Rightarrow> Inl e
           | Inr ks \<Rightarrow> Inr ((k, x) # ks)))"

text \<open>
  Then it compares the keys. Comparing a stamp that carries an offset with one that
  carries none raises \<^verbatim>\<open>TypeError\<close>, and sorting compares every element with another one,
  so a list that holds both kinds raises. Otherwise \<^verbatim>\<open>sort(key=..., reverse=True)\<close> is
  stable: it reverses the list, sorts it ascending and stably, and reverses the result.
\<close>

definition sort_reverse :: "((bool \<times> 't::linorder) \<times> 'a) list \<Rightarrow> error + 'a list" where
  "sort_reverse kxs =
     (if list_ex (\<lambda>kx. fst (fst kx)) kxs \<and> list_ex (\<lambda>kx. \<not> fst (fst kx)) kxs
      then Inl TypeError
      else Inr (map snd (rev (sort_key (\<lambda>kx. snd (fst kx)) (rev kxs)))))"

definition PostsFileStorage_get_posts ::
  "(string \<Rightarrow> string) \<Rightarrow> (string \<Rightarrow> (bool \<times> 't::linorder) option) \<Rightarrow> int \<Rightarrow> int
     \<Rightarrow> string option \<Rightarrow> string option \<Rightarrow> bool \<Rightarrow> jfile \<Rightarrow> (error + obj list) \<times> jfile" where
  "PostsFileStorage_get_posts lower parse skip limit search tag published_only f =
     (case PostsFileStorage_load_data f of
        (Inl e, f1) \<Rightarrow> (Inl e, f1)
      | (Inr data, f1) \<Rightarrow>
          let posts = coll data ''posts'';
              post_comments = coll data ''post_comments''
          in if list_ex (\<lambda>c. \<not> hashable (dict_get c ''post_id'')) post_comments
             then (Inl TypeError, f1)
             else
               case filter_posts lower post_comments search tag published_only posts of
                 Inl e \<Rightarrow> (Inl e, f1)
               | Inr filtered_posts \<Rightarrow>
                   (case sort_keys parse filtered_posts of
                      Inl e \<Rightarrow> (Inl e, f1)
                    | Inr keyed \<Rightarrow>
                        (case sort_reverse keyed of
                           Inl e \<Rightarrow> (Inl e, f1)
                         | Inr sorted_posts \<Rightarrow>
                             (Inr (py_slice sorted_posts skip (skip + limit)), f1))))"

definition PostsFileStorage_get_post ::
  "string \<Rightarrow> jfile \<Rightarrow> (error + (obj \<times> obj list) option) \<times> jfile" where
  "PostsFileStorage_get_post post_id f =
     (case PostsFileStorage_load_data f of
        (Inl e, f1) \<Rightarrow> (Inl e, f1)
      | (Inr data, f1) \<Rightarrow>
          let posts = coll data ''posts'';
              post_comments = coll data ''post_comments''
          in case find (has_id post_id) posts of
               None \<Rightarrow> (Inr None, f1)
             | Some post \<Rightarrow>
                 let comments =
                       filter (\<lambda>c. dict_get c ''post_id'' = JStr post_id) post_comments
                 in (Inr (Some (post(''comments_count'' \<mapsto> JInt (int (length comments))),
                                comments)),
                     f1))"

definition PostsFileStorage_create_post ::
  "obj \<Rightarrow> jfile \<Rightarrow> (error + obj) \<times> jfile" where
  "PostsFileStorage_create_post post_data f =
     (case PostsFileStorage_load_data f of
        (Inl e, f1) \<Rightarrow> (Inl e, f1)
      | (Inr data, f1) \<Rightarrow>
          let posts = coll data ''posts''
          in save_then_return (data(''posts'' \<mapsto> posts @ [post_data])) f1
                   (post_data(''comments_count'' \<mapsto> JInt 0)))"

definition PostsFileStorage_update_post ::
  "string \<Rightarrow> obj \<Rightarrow> jfile \<Rightarrow> (error + obj option) \<times> jfile" where
  "PostsFileStorage_update_post post_id post_data f =
     (case PostsFileStorage_load_data f of
        (Inl e, f1) \<Rightarrow> (Inl e, f1)
      | (Inr data, f1) \<Rightarrow>
          let posts = coll data ''posts'';
              post_comments = coll data ''post_comments''
          in case index_of (has_id post_id) posts of
               None \<Rightarrow> (Inr None, f1)
             | Some post_index \<Rightarrow>
                 let updated = (posts ! post_index) ++ post_data;
                     comments_count =
                       length (filter (\<lambda>c. dict_get c ''post_id'' = JStr post_id)
                                 post_comments)
                 in save_then_return (data(''posts'' \<mapsto> posts[post_index := updated])) f1
                   (Some (updated(''comments_count'' \<mapsto> JInt (int comments_count)))))"

definition PostsFileStorage_delete_post ::
  "string \<Rightarrow> jfile \<Rightarrow> (error + bool) \<times> jfile" where
  "PostsFileStorage_delete_post post_id f =
     (case PostsFileStorage_load_data f of
        (Inl e, f1) \<Rightarrow> (Inl e, f1)
      | (Inr data, f1) \<Rightarrow>
          let posts = coll data ''posts'';
              post_comments = coll data ''post_comments''
          in case index_of (has_id post_id) posts of
               None \<Rightarrow> (Inr False, f1)
             | Some post_index \<Rightarrow>
                 let posts' = pop posts post_index;
                     post_comments' =
                       filter (\<lambda>c. dict_get c ''post_id'' \<noteq> JStr post_id) post_comments
                 in save_then_return (data(''posts'' \<mapsto> posts', ''post_comments'' \<mapsto> post_comments')) f1 True)"

definition PostsFileStorage_add_comment ::
  "string \<Rightarrow> obj \<Rightarrow> jfile \<Rightarrow> (error + obj option) \<times> jfile" where
  "PostsFileStorage_add_comment post_id comment_data f =
     (case PostsFileStorage_load_data f of
        (Inl e, f1) \<Rightarrow> (Inl e, f1)
      | (Inr data, f1) \<Rightarrow>
          let posts = coll data ''posts'';
              post_comments = coll data ''post_comments''
          in case find (has_id post_id) posts of
               None \<Rightarrow> (Inr None, f1)
             | Some post \<Rightarrow>
                 save_then_return (data(''post_comments'' \<mapsto> post_comments @ [comment_data])) f1
                   (Some comment_data))"

subsection \<open>Posts routes\<close>

record PostCreate =
  pc_title :: string
  pc_content :: string
  pc_excerpt :: "string option"
  pc_author :: string
  pc_tags :: "string list"
  pc_is_published :: bool

record PostUpdate =
  pu_title :: "string option"
  pu_content :: "string option"
  pu_excerpt :: "string option"
  pu_tags :: "string list option"
  pu_is_published :: "bool option"

record PostCommentCreate =
  pcc_content :: string
  pcc_author :: string

text \<open>\<^verbatim>\<open>content[:150]\<close>, followed by the marker when the content is longer.\<close>

definition make_excerpt :: "string \<Rightarrow> string" where
  "make_excerpt content =
     (let excerpt = take 150 content
      in if length content > 150 then excerpt @ ''...'' else excerpt)"

definition posts_router_get_posts ::
  "(string \<Rightarrow> string) \<Rightarrow> (string \<Rightarrow> (bool \<times> 't::linorder) option) \<Rightarrow> int \<Rightarrow> int
     \<Rightarrow> string option \<Rightarrow> string option \<Rightarrow> bool \<Rightarrow> jfile \<Rightarrow> (error + obj list) \<times> jfile" where
  "posts_router_get_posts lower parse skip limit search tag published_only f =
     PostsFileStorage_get_posts lower parse skip limit search tag published_only f"

definition posts_router_get_post ::
  "string \<Rightarrow> jfile \<Rightarrow> (error + (obj \<times> obj list)) \<times> jfile" where
  "posts_router_get_post post_id f =
     (case PostsFileStorage_get_post post_id f of
        (Inl e, f1) \<Rightarrow> (Inl e, f1)
      | (Inr None, f1) \<Rightarrow> (Inl (HTTPException 404), f1)
      | (Inr (Some post), f1) \<Rightarrow>
          if \<not> truthy (dict_get (fst post) ''is_published'')
          then (Inl (HTTPException 404), f1)
          else (Inr post, f1))"

definition posts_router_create_post ::
  "string \<Rightarrow> string \<Rightarrow> PostCreate \<Rightarrow> jfile \<Rightarrow> (error + obj) \<times> jfile" where
  "posts_router_create_post uuid now post_create f =
     (let excerpt =
            (if (pc_excerpt post_create = None \<or> pc_excerpt post_create = Some [])
                \<and> pc_content post_create \<noteq> []
             then Some (make_excerpt (pc_content post_create))
             else pc_excerpt post_create);
          published_at = (if pc_is_published post_create then JStr now else JNull);
          new_post =
            [''id'' \<mapsto> JStr uuid,
             ''title'' \<mapsto> JStr (pc_title post_create),
             ''content'' \<mapsto> JStr (pc_content post_create),
             ''excerpt'' \<mapsto> (case excerpt of None \<Rightarrow> JNull | Some e \<Rightarrow> JStr e),
             ''author'' \<mapsto> JStr (pc_author post_create),
             ''created_at'' \<mapsto> JStr now,
             ''updated_at'' \<mapsto> JStr now,
             ''published_at'' \<mapsto> published_at,
             ''is_published'' \<mapsto> JBool (pc_is_published post_create),
             ''tags'' \<mapsto> JList (map JStr (pc_tags post_create))]
      in PostsFileStorage_create_post new_post f)"

text \<open>
  The dictionary \<^verbatim>\<open>updates\<close> that \<open>update_post\<close> builds from the request and the post it
  has fetched. The clock is read twice: \<open>now1\<close> for \<^verbatim>\<open>published_at\<close>, \<open>now2\<close> for
  \<^verbatim>\<open>updated_at\<close>.
\<close>

definition post_updates :: "string \<Rightarrow> string \<Rightarrow> obj \<Rightarrow> PostUpdate \<Rightarrow> obj" where
  "post_updates now1 now2 post post_update =
     (let u0 = Map.empty;
          u1 = (case pu_title post_update of
                  None \<Rightarrow> u0 | Some t \<Rightarrow> u0(''title'' \<mapsto> JStr t));
          u2 = (case pu_content post_update of
                  None \<Rightarrow> u1
                | Some c \<Rightarrow>
                    (let u = u1(''content'' \<mapsto> JStr c)
                     in if pu_excerpt post_update = None
                        then u(''excerpt'' \<mapsto> JStr (make_excerpt c)) else u));
          u3 = (case pu_excerpt post_update of
                  None \<Rightarrow> u2 | Some e \<Rightarrow> u2(''excerpt'' \<mapsto> JStr e));
          u4 = (case pu_tags post_update of
                  None \<Rightarrow> u3 | Some ts \<Rightarrow> u3(''tags'' \<mapsto> JList (map JStr ts)));
          u5 = (case pu_is_published post_update of
                  None \<Rightarrow> u4
                | Some b \<Rightarrow>
                    (let u = (if b \<and> \<not> truthy (dict_get post ''is_published'')
                              then u4(''published_at'' \<mapsto> JStr now1) else u4)
                     in u(''is_published'' \<mapsto> JBool b)))
      in u5(''updated_at'' \<mapsto> JStr now2))"

definition posts_router_update_post ::
  "string \<Rightarrow> string \<Rightarrow> string \<Rightarrow> PostUpdate \<Rightarrow> jfile \<Rightarrow> (error + obj) \<times> jfile" where
  "posts_router_update_post now1 now2 post_id post_update f =
     (case PostsFileStorage_get_post post_id f of
        (Inl e, f1) \<Rightarrow> (Inl e, f1)
      | (Inr None, f1) \<Rightarrow> (Inl (HTTPException 404), f1)
      | (Inr (Some post), f1) \<Rightarrow>
          (case PostsFileStorage_update_post post_id
                  (post_updates now1 now2 (fst post) post_update) f1 of
             (Inl e, f2) \<Rightarrow> (Inl e, f2)
           | (Inr None, f2) \<Rightarrow> (Inl (HTTPException 404), f2)
           | (Inr (Some updated_post), f2) \<Rightarrow> (Inr updated_post, f2)))"

definition posts_router_delete_post ::
  "string \<Rightarrow> jfile \<Rightarrow> (error + unit) \<times> jfile" where
  "posts_router_delete_post post_id f =
     (case PostsFileStorage_get_post post_id f of
        (Inl e, f1) \<Rightarrow> (Inl e, f1)
      | (Inr None, f1) \<Rightarrow> (Inl (HTTPException 404), f1)
      | (Inr (Some post), f1) \<Rightarrow>
          (case PostsFileStorage_delete_post post_id f1 of
             (Inl e, f2) \<Rightarrow> (Inl e, f2)
           | (Inr result, f2) \<Rightarrow>
               if \<not> result then (Inl (HTTPException 404), f2) else (Inr (), f2)))"

definition posts_router_add_comment ::
  "string \<Rightarrow> string \<Rightarrow> string \<Rightarrow> PostCommentCreate \<Rightarrow> jfile \<Rightarrow> (error + obj) \<times> jfile" where
  "posts_router_add_comment uuid now post_id comment_create f =
     (case PostsFileStorage_get_post post_id f of
        (Inl e, f1) \<Rightarrow> (Inl e, f1)
      | (Inr None, f1) \<Rightarrow> (Inl (HTTPException 404), f1)
      | (Inr (Some post), f1) \<Rightarrow>
          if \<not> truthy (dict_get (fst post) ''is_published'')
          then (Inl (HTTPException 404), f1)
          else
            (let new_comment =
                   [''id'' \<mapsto> JStr uuid,
                    ''content'' \<mapsto> JStr (pcc_content comment_create),
                    ''author'' \<mapsto> JStr (pcc_author comment_create),
                    ''post_id'' \<mapsto> JStr post_id,
                    ''created_at'' \<mapsto> JStr now]
             in case PostsFileStorage_add_comment post_id new_comment f1 of
                  (Inl e, f2) \<Rightarrow> (Inl e, f2)
                | (Inr None, f2) \<Rightarrow> (Inl (HTTPException 404), f2)
                | (Inr (Some c), f2) \<Rightarrow> (Inr c, f2)))"

section \<open>Reading the stored state\<close>

text \<open>The collection a file holds under a name; empty when the file holds no document.\<close>

fun collection :: "jfile \<Rightarrow> string \<Rightarrow> obj list" where
  "collection (File (Document d) w) name = coll d name"
| "collection (File c w) name = []"

text \<open>The file holds a document and can be written.\<close>

fun is_stored :: "jfile \<Rightarrow> bool" where
  "is_stored (File (Document d) None) = True"
| "is_stored f = False"

section \<open>Invariants of the ideas document\<close>

text \<open>The likes counter of an idea, when it is stored as an integer.\<close>

definition likes_counter :: "obj \<Rightarrow> int option" where
  "likes_counter x = (case x ''likes'' of Some (JInt n) \<Rightarrow> Some n | _ \<Rightarrow> None)"

text \<open>Every idea's counter is an integer that is not negative.\<close>

definition counters_nonneg :: "obj list \<Rightarrow> bool" where
  "counters_nonneg ideas =
     list_all (\<lambda>x. case likes_counter x of Some n \<Rightarrow> 0 \<le> n | None \<Rightarrow> False) ideas"

text \<open>At most one Like row for each pair of user and idea.\<close>

definition like_unique :: "obj list \<Rightarrow> bool" where
  "like_unique likes =
     distinct (map (\<lambda>l. (dict_get l ''user_id'', dict_get l ''idea_id'')) likes)"

text \<open>The Like rows of an idea.\<close>

definition rows_for :: "string \<Rightarrow> obj list \<Rightarrow> obj list" where
  "rows_for idea_id likes = filter (\<lambda>l. dict_get l ''idea_id'' = JStr idea_id) likes"

text \<open>
  Every Like row names an idea that exists, and the counter of that idea (the first with
  that id, the one \<open>toggle_like\<close> updates) is at least the number of the idea's rows.
\<close>

definition likes_backed :: "obj list \<Rightarrow> obj list \<Rightarrow> bool" where
  "likes_backed ideas likes =
     list_all
       (\<lambda>l. case dict_get l ''idea_id'' of
               JStr a \<Rightarrow>
                 (case find (has_id a) ideas of
                    Some x \<Rightarrow>
                      (case likes_counter x of
                         Some n \<Rightarrow> int (length (rows_for a likes)) \<le> n
                       | None \<Rightarrow> False)
                  | None \<Rightarrow> False)
             | _ \<Rightarrow> False)
       likes"

definition ideas_inv :: "jfile \<Rightarrow> bool" where
  "ideas_inv f =
     (is_stored f \<and>
      counters_nonneg (collection f ''ideas'') \<and>
      like_unique (collection f ''likes'') \<and>
      likes_backed (collection f ''ideas'') (collection f ''likes''))"

section \<open>Two small states of the ideas file\<close>

text \<open>
  The file after the startup event and one create request, and the same file after one
  like request without a user id.
\<close>

definition one_idea_file :: jfile where
  "one_idea_file =
     snd (ideas_router_create_idea ''i1'' ''January 01, 2024''
            \<lparr>ic_title = ''X'', ic_description = ''Y'', ic_author = ''A'', ic_tags = [''go'']\<rparr>
            (Stored ideas_initial_data))"

definition liked_idea_file :: jfile where
  "liked_idea_file =
     snd (ideas_router_toggle_like ''l1'' ''2024-01-01T00:00:00'' ''i1'' None one_idea_file)"

section \<open>Properties\<close>

subsection \<open>Lists and the file\<close>

lemma ideas_load_Stored [simp]: "IdeasFileStorage_load_data (Stored d) = (Inr d, Stored d)"
  by (simp add: IdeasFileStorage_load_data_def)

lemma posts_load_Stored [simp]: "PostsFileStorage_load_data (Stored d) = (Inr d, Stored d)"
  by (simp add: PostsFileStorage_load_data_def)

lemma index_of_None_iff: "index_of P xs = None \<longleftrightarrow> (\<forall>x\<in>set xs. \<not> P x)"
  by (induction xs) auto

lemma index_of_SomeD:
  "index_of P xs = Some i \<Longrightarrow> i < length xs \<and> P (xs ! i) \<and> (\<forall>j<i. \<not> P (xs ! j))"
proof (induction xs arbitrary: i)
  case Nil
  then show ?case by simp
next
  case (Cons x xs)
  show ?case
  proof (cases "P x")
    case True
    with Cons.prems show ?thesis by simp
  next
    case False
    with Cons.prems obtain k where k: "index_of P xs = Some k" "i = Suc k"
      by auto
    from Cons.IH [OF k(1)] False k(2) show ?thesis
      by (auto simp: nth_Cons split: nat.splits)
  qed
qed

lemma find_index_of: "find P xs = map_option (\<lambda>i. xs ! i) (index_of P xs)"
  by (induction xs) (auto simp: option.map_comp comp_def)

lemma index_of_cong_map: "map P xs = map P ys \<Longrightarrow> index_of P xs = index_of P ys"
proof (induction xs arbitrary: ys)
  case Nil
  then show ?case by simp
next
  case (Cons x xs)
  then obtain y ys' where "ys = y # ys'" by (cases ys) auto
  with Cons show ?case by auto
qed

lemma index_of_append_Some:
  "index_of P xs = Some i \<Longrightarrow> index_of P (xs @ ys) = Some i"
  by (induction xs arbitrary: i) auto

lemma index_of_snoc_new:
  "index_of P xs = None \<Longrightarrow> P y \<Longrightarrow> index_of P (xs @ [y]) = Some (length xs)"
  by (induction xs) (auto split: if_splits)

lemma index_of_snoc_other:
  "\<not> P y \<Longrightarrow> index_of P (xs @ [y]) = index_of P xs"
  by (induction xs) auto

lemma index_of_update:
  "i < length xs \<Longrightarrow> P y = P (xs ! i) \<Longrightarrow> index_of P (xs[i := y]) = index_of P xs"
  by (rule index_of_cong_map) (simp add: map_update list_update_same_conv)

subsection \<open>Loading a missing or undecodable file\<close>

lemma save_then_return_Stored [simp]:
  "save_then_return data (File c None) r = (Inr r, Stored data)"
  by (simp add: save_then_return_def)




subsection \<open>Posts: excerpts and unpublished posts\<close>

lemma posts_get_post_Stored:
  "PostsFileStorage_get_post post_id (Stored d) =
     (Inr (map_option
             (\<lambda>i. ((coll d ''posts'' ! i)(''comments_count'' \<mapsto>
                      JInt (int (length (filter (\<lambda>c. dict_get c ''post_id'' = JStr post_id)
                                           (coll d ''post_comments''))))),
                   filter (\<lambda>c. dict_get c ''post_id'' = JStr post_id) (coll d ''post_comments'')))
             (index_of (has_id post_id) (coll d ''posts''))),
      Stored d)"
  by (simp add: PostsFileStorage_get_post_def find_index_of Let_def split: option.splits)

lemma posts_update_post_Stored:
  "index_of (has_id post_id) (coll d ''posts'') = Some i \<Longrightarrow>
   posts_router_update_post now1 now2 post_id u (Stored d) =
     (Inr (((coll d ''posts'' ! i) ++
              post_updates now1 now2
                ((coll d ''posts'' ! i)(''comments_count'' \<mapsto>
                    JInt (int (length (filter (\<lambda>c. dict_get c ''post_id'' = JStr post_id)
                                         (coll d ''post_comments''))))))
                u)
             (''comments_count'' \<mapsto>
                JInt (int (length (filter (\<lambda>c. dict_get c ''post_id'' = JStr post_id)
                                     (coll d ''post_comments'')))))),
      Stored (d(''posts'' \<mapsto> (coll d ''posts'')
                 [i := (coll d ''posts'' ! i) ++
                    post_updates now1 now2
                      ((coll d ''posts'' ! i)(''comments_count'' \<mapsto>
                          JInt (int (length (filter (\<lambda>c. dict_get c ''post_id'' = JStr post_id)
                                               (coll d ''post_comments''))))))
                      u])))"
  by (simp add: posts_router_update_post_def posts_get_post_Stored
        PostsFileStorage_update_post_def save_then_return_def Let_def)

lemma post_updates_excerpt:
  "pu_content u = Some c \<Longrightarrow> pu_excerpt u = None \<Longrightarrow>
   post_updates now1 now2 p u ''excerpt'' = Some (JStr (make_excerpt c))"
  by (simp add: post_updates_def Let_def split: option.splits)

lemma coll_upd_same [simp]: "coll (d(k \<mapsto> xs)) k = xs"
  by (simp add: coll_def)

lemma coll_upd_other [simp]: "k \<noteq> k' \<Longrightarrow> coll (d(k \<mapsto> xs)) k' = coll d k'"
  by (simp add: coll_def)

text \<open>
  C6. Updating an existing post with new content and no explicit excerpt stores an excerpt
  derived from that content: its first 150 characters followed by the three characters
  \<^verbatim>\<open>...\<close> when the content is longer than 150 characters, the content itself otherwise.
  The update succeeds and the response carries the same excerpt.
\<close>

theorem update_post_excerpt:
  assumes "index_of (has_id post_id) (coll d ''posts'') = Some i"
      and "pu_content u = Some c" and "pu_excerpt u = None"
  shows "\<exists>r d'. posts_router_update_post now1 now2 post_id u (Stored d) = (Inr r, Stored d') \<and>
           length (coll d' ''posts'') = length (coll d ''posts'') \<and>
           (coll d' ''posts'' ! i) ''excerpt'' =
              Some (JStr (if 150 < length c then take 150 c @ ''...'' else c)) \<and>
           r ''excerpt'' = Some (JStr (if 150 < length c then take 150 c @ ''...'' else c))"
proof -
  from index_of_SomeD [OF assms(1)] have i: "i < length (coll d ''posts'')" by simp
  have ex: "make_excerpt c = (if 150 < length c then take 150 c @ ''...'' else c)"
    by (simp add: make_excerpt_def)
  show ?thesis
    unfolding posts_update_post_Stored [OF assms(1)]
    using i post_updates_excerpt [OF assms(2,3)] ex
    by (simp add: map_add_def)
qed


lemma filter_posts_published:
  "filter_posts lower pcs search tag True posts = Inr res \<Longrightarrow>
   \<forall>p\<in>set res. truthy (dict_get p ''is_published'')"
proof (induction posts arbitrary: res)
  case Nil
  then show ?case by simp
next
  case (Cons post posts)
  from Cons.prems obtain r rest where
    r: "filter_post lower pcs search tag True post = Inr r" and
    rest: "filter_posts lower pcs search tag True posts = Inr rest" and
    res: "res = (case r of None \<Rightarrow> [] | Some p \<Rightarrow> [p]) @ rest"
    by (auto split: sum.splits)
  have "truthy (dict_get p ''is_published'')" if "r = Some p" for p
    using r that
    by (auto simp: filter_post_def dict_get_def dict_get_d_def
             split: if_splits sum.splits bool.splits option.splits)
  with Cons.IH [OF rest] res show ?case
    by (auto split: option.splits)
qed

lemma sort_keys_snd: "sort_keys parse xs = Inr kxs \<Longrightarrow> map snd kxs = xs"
  by (induction xs arbitrary: kxs) (auto split: sum.splits)

lemma set_sort_reverse: "sort_reverse kxs = Inr xs \<Longrightarrow> set xs = snd ` set kxs"
proof -
  assume "sort_reverse kxs = Inr xs"
  then have "xs = map snd (rev (sort_key (\<lambda>kx. snd (fst kx)) (rev kxs)))"
    by (simp add: sort_reverse_def split: if_splits)
  then show ?thesis by simp
qed

lemma set_py_slice: "set (py_slice xs a b) \<subseteq> set xs"
  unfolding py_slice_def Let_def
  by (meson set_take_subset set_drop_subset subset_trans)

lemma get_posts_published:
  assumes "PostsFileStorage_get_posts lower parse skip limit search tag True (Stored d) =
             (Inr res, f')"
  shows "\<forall>p\<in>set res. truthy (dict_get p ''is_published'')"
proof -
  from assms obtain filtered keyed sorted_posts where
    f: "filter_posts lower (coll d ''post_comments'') search tag True (coll d ''posts'') =
          Inr filtered"
    and k: "sort_keys parse filtered = Inr keyed"
    and s: "sort_reverse keyed = Inr sorted_posts"
    and r: "res = py_slice sorted_posts skip (skip + limit)"
    by (auto simp: PostsFileStorage_get_posts_def Let_def split: if_splits sum.splits)
  have "set res \<subseteq> set filtered"
    using set_py_slice [of sorted_posts skip "skip + limit"] r
      sort_keys_snd [OF k] set_sort_reverse [OF s]
    by (metis set_map)
  with filter_posts_published [OF f] show ?thesis by blast
qed

lemma post_updates_fields:
  "post_updates now1 now2 p u ''title'' = map_option JStr (pu_title u)"
  "post_updates now1 now2 p u ''content'' = map_option JStr (pu_content u)"
  "post_updates now1 now2 p u ''excerpt'' =
     (case pu_excerpt u of
        Some e \<Rightarrow> Some (JStr e)
      | None \<Rightarrow> map_option (\<lambda>c. JStr (make_excerpt c)) (pu_content u))"
  "post_updates now1 now2 p u ''tags'' = map_option (\<lambda>ts. JList (map JStr ts)) (pu_tags u)"
  "post_updates now1 now2 p u ''is_published'' = map_option JBool (pu_is_published u)"
  "post_updates now1 now2 p u ''published_at'' =
     (if pu_is_published u = Some True \<and> \<not> truthy (dict_get p ''is_published'')
      then Some (JStr now1) else None)"
  "post_updates now1 now2 p u ''updated_at'' = Some (JStr now2)"
  by (simp_all add: post_updates_def Let_def split: option.splits)

lemma post_updates_other:
  "k \<noteq> ''title'' \<Longrightarrow> k \<noteq> ''content'' \<Longrightarrow> k \<noteq> ''excerpt'' \<Longrightarrow> k \<noteq> ''tags'' \<Longrightarrow>
   k \<noteq> ''is_published'' \<Longrightarrow> k \<noteq> ''published_at'' \<Longrightarrow> k \<noteq> ''updated_at'' \<Longrightarrow>
   post_updates now1 now2 p u k = None"
  by (simp add: post_updates_def Let_def split: option.splits)

text \<open>
  C9. On an existing post that is not published, the update route succeeds and stores
  the update: each of title, content, excerpt, tags and \<^verbatim>\<open>is_published\<close> takes the value the
  request supplies and keeps its stored value otherwise (the excerpt is derived from new
  content when the request has no excerpt), \<^verbatim>\<open>published_at\<close> is stamped when the request
  publishes the post, \<^verbatim>\<open>updated_at\<close> is stamped, and nothing else in the file changes. The
  delete route succeeds and removes the post and its comments. Fetching the post and
  commenting on it answer 404, and the listing filter with \<open>published_only\<close> skips it.
\<close>

theorem unpublished_post_update_delete:
  assumes "index_of (has_id post_id) (coll d ''posts'') = Some i"
      and "\<not> truthy (dict_get (coll d ''posts'' ! i) ''is_published'')"
  shows "(\<exists>r d'.
            posts_router_update_post now1 now2 post_id u (Stored d) = (Inr r, Stored d') \<and>
            length (coll d' ''posts'') = length (coll d ''posts'') \<and>
            (\<forall>j. j \<noteq> i \<longrightarrow> coll d' ''posts'' ! j = coll d ''posts'' ! j) \<and>
            coll d' ''post_comments'' = coll d ''post_comments'' \<and>
            r = (coll d' ''posts'' ! i)
                  (''comments_count'' \<mapsto>
                     JInt (int (length (filter (\<lambda>c. dict_get c ''post_id'' = JStr post_id)
                                          (coll d ''post_comments''))))) \<and>
            (coll d' ''posts'' ! i) ''title'' =
              (case pu_title u of
                 None \<Rightarrow> (coll d ''posts'' ! i) ''title''
               | Some t \<Rightarrow> Some (JStr t)) \<and>
            (coll d' ''posts'' ! i) ''content'' =
              (case pu_content u of
                 None \<Rightarrow> (coll d ''posts'' ! i) ''content''
               | Some c \<Rightarrow> Some (JStr c)) \<and>
            (coll d' ''posts'' ! i) ''excerpt'' =
              (case pu_excerpt u of
                 Some e \<Rightarrow> Some (JStr e)
               | None \<Rightarrow>
                   (case pu_content u of
                      None \<Rightarrow> (coll d ''posts'' ! i) ''excerpt''
                    | Some c \<Rightarrow>
                        Some (JStr (if 150 < length c then take 150 c @ ''...'' else c)))) \<and>
            (coll d' ''posts'' ! i) ''tags'' =
              (case pu_tags u of
                 None \<Rightarrow> (coll d ''posts'' ! i) ''tags''
               | Some ts \<Rightarrow> Some (JList (map JStr ts))) \<and>
            (coll d' ''posts'' ! i) ''is_published'' =
              (case pu_is_published u of
                 None \<Rightarrow> (coll d ''posts'' ! i) ''is_published''
               | Some b \<Rightarrow> Some (JBool b)) \<and>
            (coll d' ''posts'' ! i) ''published_at'' =
              (if pu_is_published u = Some True then Some (JStr now1)
               else (coll d ''posts'' ! i) ''published_at'') \<and>
            (coll d' ''posts'' ! i) ''updated_at'' = Some (JStr now2) \<and>
            (\<forall>k. k \<noteq> ''title'' \<and> k \<noteq> ''content'' \<and> k \<noteq> ''excerpt'' \<and> k \<noteq> ''tags'' \<and>
                 k \<noteq> ''is_published'' \<and> k \<noteq> ''published_at'' \<and> k \<noteq> ''updated_at'' \<longrightarrow>
                 (coll d' ''posts'' ! i) k = (coll d ''posts'' ! i) k)) \<and>
         (\<exists>d'. posts_router_delete_post post_id (Stored d) = (Inr (), Stored d') \<and>
                coll d' ''posts'' = pop (coll d ''posts'') i \<and>
                coll d' ''post_comments'' =
                  filter (\<lambda>c. dict_get c ''post_id'' \<noteq> JStr post_id) (coll d ''post_comments'')) \<and>
         posts_router_get_post post_id (Stored d) = (Inl (HTTPException 404), Stored d) \<and>
         posts_router_add_comment uuid now post_id c (Stored d) =
           (Inl (HTTPException 404), Stored d) \<and>
         filter_post lower (coll d ''post_comments'') search tag True (coll d ''posts'' ! i) =
           Inr None"
proof -
  let ?x = "coll d ''posts'' ! i"
  let ?n = "JInt (int (length (filter (\<lambda>c. dict_get c ''post_id'' = JStr post_id)
                                 (coll d ''post_comments''))))"
  let ?up = "post_updates now1 now2 (?x(''comments_count'' \<mapsto> ?n)) u"
  let ?d' = "d(''posts'' \<mapsto> (coll d ''posts'')[i := ?x ++ ?up])"
  from index_of_SomeD [OF assms(1)] have i: "i < length (coll d ''posts'')" by simp
  have unpub: "\<not> truthy (dict_get (?x(''comments_count'' \<mapsto> n)) ''is_published'')" for n
    using assms(2) by (simp add: dict_get_def dict_get_d_def)
  have op: "posts_router_update_post now1 now2 post_id u (Stored d) =
              (Inr ((?x ++ ?up)(''comments_count'' \<mapsto> ?n)), Stored ?d')"
    by (rule posts_update_post_Stored [OF assms(1)])
  have x': "coll ?d' ''posts'' ! i = ?x ++ ?up" using i by simp
  have ex: "make_excerpt s = (if 150 < length s then take 150 s @ ''...'' else s)" for s
    by (simp add: make_excerpt_def)
  have t: "(?x ++ ?up) ''title'' =
             (case pu_title u of None \<Rightarrow> ?x ''title'' | Some t \<Rightarrow> Some (JStr t))"
    by (simp add: map_add_def post_updates_fields split: option.splits)
  have co: "(?x ++ ?up) ''content'' =
             (case pu_content u of None \<Rightarrow> ?x ''content'' | Some c \<Rightarrow> Some (JStr c))"
    by (simp add: map_add_def post_updates_fields split: option.splits)
  have e: "(?x ++ ?up) ''excerpt'' =
             (case pu_excerpt u of
                Some e \<Rightarrow> Some (JStr e)
              | None \<Rightarrow>
                  (case pu_content u of
                     None \<Rightarrow> ?x ''excerpt''
                   | Some c \<Rightarrow> Some (JStr (if 150 < length c then take 150 c @ ''...'' else c))))"
    by (simp add: map_add_def post_updates_fields ex split: option.splits)
  have tg: "(?x ++ ?up) ''tags'' =
             (case pu_tags u of None \<Rightarrow> ?x ''tags'' | Some ts \<Rightarrow> Some (JList (map JStr ts)))"
    by (simp add: map_add_def post_updates_fields split: option.splits)
  have ip: "(?x ++ ?up) ''is_published'' =
             (case pu_is_published u of None \<Rightarrow> ?x ''is_published'' | Some b \<Rightarrow> Some (JBool b))"
    by (simp add: map_add_def post_updates_fields split: option.splits)
  have pa: "(?x ++ ?up) ''published_at'' =
             (if pu_is_published u = Some True then Some (JStr now1) else ?x ''published_at'')"
    using unpub by (simp add: map_add_def post_updates_fields)
  have ua: "(?x ++ ?up) ''updated_at'' = Some (JStr now2)"
    by (simp add: map_add_def post_updates_fields)
  have other: "(?x ++ ?up) k = ?x k"
    if "k \<noteq> ''title'' \<and> k \<noteq> ''content'' \<and> k \<noteq> ''excerpt'' \<and> k \<noteq> ''tags'' \<and>
        k \<noteq> ''is_published'' \<and> k \<noteq> ''published_at'' \<and> k \<noteq> ''updated_at''" for k
    using that by (simp add: map_add_def post_updates_other)
  have rest: "coll ?d' ''posts'' ! j = coll d ''posts'' ! j" if "j \<noteq> i" for j
    using that by simp
  have 1: "\<exists>r d'.
            posts_router_update_post now1 now2 post_id u (Stored d) = (Inr r, Stored d') \<and>
            length (coll d' ''posts'') = length (coll d ''posts'') \<and>
            (\<forall>j. j \<noteq> i \<longrightarrow> coll d' ''posts'' ! j = coll d ''posts'' ! j) \<and>
            coll d' ''post_comments'' = coll d ''post_comments'' \<and>
            r = (coll d' ''posts'' ! i)(''comments_count'' \<mapsto> ?n) \<and>
            (coll d' ''posts'' ! i) ''title'' =
              (case pu_title u of None \<Rightarrow> ?x ''title'' | Some t \<Rightarrow> Some (JStr t)) \<and>
            (coll d' ''posts'' ! i) ''content'' =
              (case pu_content u of None \<Rightarrow> ?x ''content'' | Some c \<Rightarrow> Some (JStr c)) \<and>
            (coll d' ''posts'' ! i) ''excerpt'' =
              (case pu_excerpt u of
                 Some e \<Rightarrow> Some (JStr e)
               | None \<Rightarrow>
                   (case pu_content u of
                      None \<Rightarrow> ?x ''excerpt''
                    | Some c \<Rightarrow>
                        Some (JStr (if 150 < length c then take 150 c @ ''...'' else c)))) \<and>
            (coll d' ''posts'' ! i) ''tags'' =
              (case pu_tags u of None \<Rightarrow> ?x ''tags'' | Some ts \<Rightarrow> Some (JList (map JStr ts))) \<and>
            (coll d' ''posts'' ! i) ''is_published'' =
              (case pu_is_published u of None \<Rightarrow> ?x ''is_published'' | Some b \<Rightarrow> Some (JBool b)) \<and>
            (coll d' ''posts'' ! i) ''published_at'' =
              (if pu_is_published u = Some True then Some (JStr now1) else ?x ''published_at'') \<and>
            (coll d' ''posts'' ! i) ''updated_at'' = Some (JStr now2) \<and>
            (\<forall>k. k \<noteq> ''title'' \<and> k \<noteq> ''content'' \<and> k \<noteq> ''excerpt'' \<and> k \<noteq> ''tags'' \<and>
                 k \<noteq> ''is_published'' \<and> k \<noteq> ''published_at'' \<and> k \<noteq> ''updated_at'' \<longrightarrow>
                 (coll d' ''posts'' ! i) k = ?x k)"
  proof (intro exI conjI)
    show "posts_router_update_post now1 now2 post_id u (Stored d) =
            (Inr ((?x ++ ?up)(''comments_count'' \<mapsto> ?n)), Stored ?d')"
      by (rule op)
    show "length (coll ?d' ''posts'') = length (coll d ''posts'')" by simp
    show "\<forall>j. j \<noteq> i \<longrightarrow> coll ?d' ''posts'' ! j = coll d ''posts'' ! j" by simp
    show "coll ?d' ''post_comments'' = coll d ''post_comments''" by simp
    show "(?x ++ ?up)(''comments_count'' \<mapsto> ?n) =
            (coll ?d' ''posts'' ! i)(''comments_count'' \<mapsto> ?n)"
      unfolding x' by (rule refl)
    show "(coll ?d' ''posts'' ! i) ''title'' =
            (case pu_title u of None \<Rightarrow> ?x ''title'' | Some t \<Rightarrow> Some (JStr t))"
      unfolding x' by (rule t)
    show "(coll ?d' ''posts'' ! i) ''content'' =
            (case pu_content u of None \<Rightarrow> ?x ''content'' | Some c \<Rightarrow> Some (JStr c))"
      unfolding x' by (rule co)
    show "(coll ?d' ''posts'' ! i) ''excerpt'' =
            (case pu_excerpt u of
               Some e \<Rightarrow> Some (JStr e)
             | None \<Rightarrow>
                 (case pu_content u of
                    None \<Rightarrow> ?x ''excerpt''
                  | Some c \<Rightarrow>
                      Some (JStr (if 150 < length c then take 150 c @ ''...'' else c))))"
      unfolding x' by (rule e)
    show "(coll ?d' ''posts'' ! i) ''tags'' =
            (case pu_tags u of None \<Rightarrow> ?x ''tags'' | Some ts \<Rightarrow> Some (JList (map JStr ts)))"
      unfolding x' by (rule tg)
    show "(coll ?d' ''posts'' ! i) ''is_published'' =
            (case pu_is_published u of
               None \<Rightarrow> ?x ''is_published'' | Some b \<Rightarrow> Some (JBool b))"
      unfolding x' by (rule ip)
    show "(coll ?d' ''posts'' ! i) ''published_at'' =
            (if pu_is_published u = Some True then Some (JStr now1) else ?x ''published_at'')"
      unfolding x' by (rule pa)
    show "(coll ?d' ''posts'' ! i) ''updated_at'' = Some (JStr now2)"
      unfolding x' by (rule ua)
    show "\<forall>k. k \<noteq> ''title'' \<and> k \<noteq> ''content'' \<and> k \<noteq> ''excerpt'' \<and> k \<noteq> ''tags'' \<and>
               k \<noteq> ''is_published'' \<and> k \<noteq> ''published_at'' \<and> k \<noteq> ''updated_at'' \<longrightarrow>
               (coll ?d' ''posts'' ! i) k = ?x k"
      unfolding x' using other by blast
  qed
  have 2: "\<exists>d'. posts_router_delete_post post_id (Stored d) = (Inr (), Stored d') \<and>
                coll d' ''posts'' = pop (coll d ''posts'') i \<and>
                coll d' ''post_comments'' =
                  filter (\<lambda>c. dict_get c ''post_id'' \<noteq> JStr post_id) (coll d ''post_comments'')"
    using assms(1)
    by (simp add: posts_router_delete_post_def posts_get_post_Stored
          PostsFileStorage_delete_post_def Let_def)
  have 3: "posts_router_get_post post_id (Stored d) = (Inl (HTTPException 404), Stored d)"
    using assms(1) unpub
    by (simp add: posts_router_get_post_def posts_get_post_Stored)
  have 4: "posts_router_add_comment uuid now post_id c (Stored d) =
             (Inl (HTTPException 404), Stored d)"
    using assms(1) unpub
    by (simp add: posts_router_add_comment_def posts_get_post_Stored)
  have 5: "filter_post lower (coll d ''post_comments'') search tag True (coll d ''posts'' ! i) =
             Inr None"
    using assms(2)
    by (simp add: filter_post_def dict_get_def dict_get_d_def split: option.splits)
  from 1 2 3 4 5 show ?thesis by (intro conjI)
qed

theorem update_post_excerpt_witness:
  "index_of (has_id ''p'')
     (coll [''posts'' \<mapsto> [[''id'' \<mapsto> JStr ''p'', ''content'' \<mapsto> JStr ''old'']]] ''posts'') = Some 0 \<and>
   (\<exists>r d'. posts_router_update_post ''t1'' ''t2'' ''p''
              \<lparr>pu_title = None, pu_content = Some (replicate 151 CHR ''a''), pu_excerpt = None,
               pu_tags = None, pu_is_published = None\<rparr>
              (Stored [''posts'' \<mapsto> [[''id'' \<mapsto> JStr ''p'', ''content'' \<mapsto> JStr ''old'']]])
            = (Inr r, Stored d') \<and>
          (coll d' ''posts'' ! 0) ''excerpt'' = Some (JStr (replicate 150 CHR ''a'' @ ''...'')))"
proof -
  have h: "index_of (has_id ''p'')
     (coll [''posts'' \<mapsto> [[''id'' \<mapsto> JStr ''p'', ''content'' \<mapsto> JStr ''old'']]] ''posts'') = Some 0"
    by (simp add: has_id_def dict_get_def dict_get_d_def coll_def)
  from update_post_excerpt [OF h, of
      "\<lparr>pu_title = None, pu_content = Some (replicate 151 CHR ''a''), pu_excerpt = None,
        pu_tags = None, pu_is_published = None\<rparr>" "replicate 151 CHR ''a''" "''t1''" "''t2''"]
  obtain r d' where
    "posts_router_update_post ''t1'' ''t2'' ''p''
       \<lparr>pu_title = None, pu_content = Some (replicate 151 CHR ''a''), pu_excerpt = None,
        pu_tags = None, pu_is_published = None\<rparr>
       (Stored [''posts'' \<mapsto> [[''id'' \<mapsto> JStr ''p'', ''content'' \<mapsto> JStr ''old'']]])
     = (Inr r, Stored d')"
    "(coll d' ''posts'' ! 0) ''excerpt'' = Some (JStr (replicate 150 CHR ''a'' @ ''...''))"
    by auto
  with h show ?thesis by blast
qed

theorem unpublished_post_update_delete_witness:
  "index_of (has_id ''p'')
     (coll [''posts'' \<mapsto> [[''id'' \<mapsto> JStr ''p'', ''title'' \<mapsto> JStr ''old'',
                            ''is_published'' \<mapsto> JBool False,
                            ''published_at'' \<mapsto> JNull]]] ''posts'') = Some 0 \<and>
   \<not> truthy (dict_get
        (coll [''posts'' \<mapsto> [[''id'' \<mapsto> JStr ''p'', ''title'' \<mapsto> JStr ''old'',
                               ''is_published'' \<mapsto> JBool False,
                               ''published_at'' \<mapsto> JNull]]] ''posts'' ! 0)
        ''is_published'') \<and>
   (\<exists>r d'. posts_router_update_post ''t1'' ''t2'' ''p''
              \<lparr>pu_title = Some ''new'', pu_content = None, pu_excerpt = None, pu_tags = None,
               pu_is_published = Some True\<rparr>
              (Stored [''posts'' \<mapsto> [[''id'' \<mapsto> JStr ''p'', ''title'' \<mapsto> JStr ''old'',
                                      ''is_published'' \<mapsto> JBool False,
                                      ''published_at'' \<mapsto> JNull]]])
            = (Inr r, Stored d') \<and>
          length (coll d' ''posts'') = 1 \<and>
          (coll d' ''posts'' ! 0) ''title'' = Some (JStr ''new'') \<and>
          (coll d' ''posts'' ! 0) ''is_published'' = Some (JBool True) \<and>
          (coll d' ''posts'' ! 0) ''published_at'' = Some (JStr ''t1'') \<and>
          (coll d' ''posts'' ! 0) ''updated_at'' = Some (JStr ''t2'') \<and>
          (coll d' ''posts'' ! 0) ''id'' = Some (JStr ''p'') \<and>
          r ''title'' = Some (JStr ''new'') \<and>
          r ''comments_count'' = Some (JInt 0)) \<and>
   (\<exists>d'. posts_router_delete_post ''p''
            (Stored [''posts'' \<mapsto> [[''id'' \<mapsto> JStr ''p'', ''title'' \<mapsto> JStr ''old'',
                                    ''is_published'' \<mapsto> JBool False,
                                    ''published_at'' \<mapsto> JNull]]])
          = (Inr (), Stored d') \<and> coll d' ''posts'' = []) \<and>
   posts_router_get_post ''p''
     (Stored [''posts'' \<mapsto> [[''id'' \<mapsto> JStr ''p'', ''title'' \<mapsto> JStr ''old'',
                             ''is_published'' \<mapsto> JBool False,
                             ''published_at'' \<mapsto> JNull]]])
     = (Inl (HTTPException 404),
        Stored [''posts'' \<mapsto> [[''id'' \<mapsto> JStr ''p'', ''title'' \<mapsto> JStr ''old'',
                                ''is_published'' \<mapsto> JBool False,
                                ''published_at'' \<mapsto> JNull]]])"
proof -
  let ?d = "[''posts'' \<mapsto> [[''id'' \<mapsto> JStr ''p'', ''title'' \<mapsto> JStr ''old'',
                              ''is_published'' \<mapsto> JBool False,
                              ''published_at'' \<mapsto> JNull]]]"
  let ?u = "\<lparr>pu_title = Some ''new'', pu_content = None, pu_excerpt = None, pu_tags = None,
             pu_is_published = Some True\<rparr>"
  have h: "index_of (has_id ''p'') (coll ?d ''posts'') = Some 0"
    by (simp add: has_id_def dict_get_def dict_get_d_def coll_def)
  have u: "\<not> truthy (dict_get (coll ?d ''posts'' ! 0) ''is_published'')"
    by (simp add: dict_get_def dict_get_d_def coll_def)
  note t = unpublished_post_update_delete [OF h u, of "''t1''" "''t2''" ?u]
  from t [THEN conjunct1] obtain r d' where
    a: "posts_router_update_post ''t1'' ''t2'' ''p'' ?u (Stored ?d) = (Inr r, Stored d')"
       "length (coll d' ''posts'') = length (coll ?d ''posts'')"
       "r = (coll d' ''posts'' ! 0)
              (''comments_count'' \<mapsto>
                 JInt (int (length (filter (\<lambda>c. dict_get c ''post_id'' = JStr ''p'')
                                      (coll ?d ''post_comments'')))))"
       "(coll d' ''posts'' ! 0) ''title'' =
          (case pu_title ?u of None \<Rightarrow> (coll ?d ''posts'' ! 0) ''title'' | Some t \<Rightarrow> Some (JStr t))"
       "(coll d' ''posts'' ! 0) ''is_published'' =
          (case pu_is_published ?u of
             None \<Rightarrow> (coll ?d ''posts'' ! 0) ''is_published'' | Some b \<Rightarrow> Some (JBool b))"
       "(coll d' ''posts'' ! 0) ''published_at'' =
          (if pu_is_published ?u = Some True then Some (JStr ''t1'')
           else (coll ?d ''posts'' ! 0) ''published_at'')"
       "(coll d' ''posts'' ! 0) ''updated_at'' = Some (JStr ''t2'')"
       "\<forall>k. k \<noteq> ''title'' \<and> k \<noteq> ''content'' \<and> k \<noteq> ''excerpt'' \<and> k \<noteq> ''tags'' \<and>
            k \<noteq> ''is_published'' \<and> k \<noteq> ''published_at'' \<and> k \<noteq> ''updated_at'' \<longrightarrow>
            (coll d' ''posts'' ! 0) k = (coll ?d ''posts'' ! 0) k"
    by (elim exE conjE) (rule that; assumption)
  from a(8) have id: "(coll d' ''posts'' ! 0) ''id'' = Some (JStr ''p'')"
    by (simp add: coll_def)
  from a have 1: "\<exists>r d'. posts_router_update_post ''t1'' ''t2'' ''p'' ?u (Stored ?d)
            = (Inr r, Stored d') \<and>
          length (coll d' ''posts'') = 1 \<and>
          (coll d' ''posts'' ! 0) ''title'' = Some (JStr ''new'') \<and>
          (coll d' ''posts'' ! 0) ''is_published'' = Some (JBool True) \<and>
          (coll d' ''posts'' ! 0) ''published_at'' = Some (JStr ''t1'') \<and>
          (coll d' ''posts'' ! 0) ''updated_at'' = Some (JStr ''t2'') \<and>
          (coll d' ''posts'' ! 0) ''id'' = Some (JStr ''p'') \<and>
          r ''title'' = Some (JStr ''new'') \<and>
          r ''comments_count'' = Some (JInt 0)"
    using id by (intro exI [of _ r] exI [of _ d']) (simp add: coll_def)
  from t [THEN conjunct2, THEN conjunct1]
  have 2: "\<exists>d'. posts_router_delete_post ''p'' (Stored ?d) = (Inr (), Stored d') \<and>
      coll d' ''posts'' = []"
    by (auto simp: pop_def coll_def)
  from t [THEN conjunct2, THEN conjunct2, THEN conjunct1]
  have 3: "posts_router_get_post ''p'' (Stored ?d) = (Inl (HTTPException 404), Stored ?d)" .
  from h u 1 2 3 show ?thesis by (intro conjI)
qed

subsection \<open>Posts: publication time\<close>

lemma collection_Stored: "collection (Stored d) name = coll d name"
  by simp

lemma posts_create_post_Stored:
  "posts_router_create_post uuid now pc (Stored d) =
     (Inr ([''id'' \<mapsto> JStr uuid,
             ''title'' \<mapsto> JStr (pc_title pc),
             ''content'' \<mapsto> JStr (pc_content pc),
             ''excerpt'' \<mapsto>
               (case (if (pc_excerpt pc = None \<or> pc_excerpt pc = Some []) \<and> pc_content pc \<noteq> []
                      then Some (make_excerpt (pc_content pc)) else pc_excerpt pc) of
                  None \<Rightarrow> JNull | Some e \<Rightarrow> JStr e),
             ''author'' \<mapsto> JStr (pc_author pc),
             ''created_at'' \<mapsto> JStr now,
             ''updated_at'' \<mapsto> JStr now,
             ''published_at'' \<mapsto> (if pc_is_published pc then JStr now else JNull),
             ''is_published'' \<mapsto> JBool (pc_is_published pc),
             ''tags'' \<mapsto> JList (map JStr (pc_tags pc)),
             ''comments_count'' \<mapsto> JInt 0]),
      Stored (d(''posts'' \<mapsto> coll d ''posts'' @
            [[''id'' \<mapsto> JStr uuid,
             ''title'' \<mapsto> JStr (pc_title pc),
             ''content'' \<mapsto> JStr (pc_content pc),
             ''excerpt'' \<mapsto>
               (case (if (pc_excerpt pc = None \<or> pc_excerpt pc = Some []) \<and> pc_content pc \<noteq> []
                      then Some (make_excerpt (pc_content pc)) else pc_excerpt pc) of
                  None \<Rightarrow> JNull | Some e \<Rightarrow> JStr e),
             ''author'' \<mapsto> JStr (pc_author pc),
             ''created_at'' \<mapsto> JStr now,
             ''updated_at'' \<mapsto> JStr now,
             ''published_at'' \<mapsto> (if pc_is_published pc then JStr now else JNull),
             ''is_published'' \<mapsto> JBool (pc_is_published pc),
             ''tags'' \<mapsto> JList (map JStr (pc_tags pc))]])))"
  by (simp add: posts_router_create_post_def PostsFileStorage_create_post_def save_then_return_def Let_def)

text \<open>
  C2. \<^verbatim>\<open>published_at\<close> is to be stamped once, at the first update that publishes the post, and
  never altered afterwards. The route tests only whether the post is unpublished at the
  moment of the update, so on a post created as a draft the sequence publish, unpublish,
  publish stamps it twice: after the first update it holds the time of that update, after
  the third it holds the time of the third.
\<close>

theorem published_at_restamped:
  "map (\<lambda>p. p ''published_at'')
     (collection
        (snd (posts_router_update_post ''2024-01-02T00:00:00'' ''2024-01-02T00:00:00'' ''p1''
                \<lparr>pu_title = None, pu_content = None, pu_excerpt = None, pu_tags = None,
                 pu_is_published = Some True\<rparr>
        (snd (posts_router_create_post ''p1'' ''2024-01-01T00:00:00''
                \<lparr>pc_title = ''t'', pc_content = ''c'', pc_excerpt = None, pc_author = ''a'',
                 pc_tags = [], pc_is_published = False\<rparr>
                (Stored posts_initial_data)))))
        ''posts'')
     = [Some (JStr ''2024-01-02T00:00:00'')] \<and>
   map (\<lambda>p. p ''published_at'')
     (collection
        (snd (posts_router_update_post ''2024-01-04T00:00:00'' ''2024-01-04T00:00:00'' ''p1''
                \<lparr>pu_title = None, pu_content = None, pu_excerpt = None, pu_tags = None,
                 pu_is_published = Some True\<rparr>
        (snd (posts_router_update_post ''2024-01-03T00:00:00'' ''2024-01-03T00:00:00'' ''p1''
                \<lparr>pu_title = None, pu_content = None, pu_excerpt = None, pu_tags = None,
                 pu_is_published = Some False\<rparr>
        (snd (posts_router_update_post ''2024-01-02T00:00:00'' ''2024-01-02T00:00:00'' ''p1''
                \<lparr>pu_title = None, pu_content = None, pu_excerpt = None, pu_tags = None,
                 pu_is_published = Some True\<rparr>
        (snd (posts_router_create_post ''p1'' ''2024-01-01T00:00:00''
                \<lparr>pc_title = ''t'', pc_content = ''c'', pc_excerpt = None, pc_author = ''a'',
                 pc_tags = [], pc_is_published = False\<rparr>
                (Stored posts_initial_data)))))))))
        ''posts'')
     = [Some (JStr ''2024-01-04T00:00:00'')]"
  by (simp add: posts_create_post_Stored posts_update_post_Stored posts_initial_data_def
        has_id_def dict_get_def dict_get_d_def post_updates_def map_add_def Let_def)

text \<open>
  C1. \<open>get_posts\<close> is to sort by \<^verbatim>\<open>published_at\<close>, falling back to \<^verbatim>\<open>created_at\<close>, on every
  stored document. The create route stores \<^verbatim>\<open>published_at\<close> as null for a draft, and
  \<^verbatim>\<open>dict.get\<close> falls back only for a key that is absent: listing with
  \<open>published_only = False\<close> after creating one draft raises \<^verbatim>\<open>TypeError\<close> from the sort key,
  whatever the parser of time stamps and the lowering of strings are.
\<close>

theorem get_posts_draft_raises:
  "fst (PostsFileStorage_get_posts lower parse 0 10 None None False
     (snd (posts_router_create_post ''p1'' ''2024-01-01T00:00:00''
             \<lparr>pc_title = ''t'', pc_content = ''c'', pc_excerpt = None, pc_author = ''a'',
              pc_tags = [], pc_is_published = False\<rparr>
             (Stored posts_initial_data))))
   = Inl TypeError"
  by (simp add: posts_create_post_Stored PostsFileStorage_get_posts_def posts_initial_data_def
        filter_post_def sort_key_of_def fromisoformat_def
        dict_get_def dict_get_d_def Let_def)

subsection \<open>Ideas: what each route leaves in the file\<close>

lemma ideas_get_idea_Stored:
  "IdeasFileStorage_get_idea a None (Stored d) =
     (Inr (map_option
             (\<lambda>i. ((coll d ''ideas'' ! i)(''userLiked'' \<mapsto> JBool False,
                      ''comments'' \<mapsto> JInt (int (length (filter (\<lambda>c. dict_get c ''idea_id'' = JStr a)
                                                       (coll d ''comments''))))),
                   filter (\<lambda>c. dict_get c ''idea_id'' = JStr a) (coll d ''comments'')))
             (index_of (has_id a) (coll d ''ideas''))),
      Stored d)"
  by (simp add: IdeasFileStorage_get_idea_def find_index_of Let_def split: option.splits)

text \<open>The idea that the create route stores.\<close>

lemma ideas_create_Stored:
  "snd (ideas_router_create_idea uuid now c (Stored d)) =
     Stored (d(''ideas'' \<mapsto> coll d ''ideas'' @
       [[''id'' \<mapsto> JStr uuid,
         ''title'' \<mapsto> JStr (ic_title c),
         ''description'' \<mapsto> JStr (ic_description c),
         ''author'' \<mapsto> JStr (ic_author c),
         ''date'' \<mapsto> JStr now,
         ''likes'' \<mapsto> JInt 0,
         ''tags'' \<mapsto> JList (map JStr (ic_tags c)),
         ''userLiked'' \<mapsto> JBool False]]))"
  by (simp add: ideas_router_create_idea_def IdeasFileStorage_create_idea_def save_then_return_def Let_def)

lemma ideas_update_Stored:
  "ideas_router_update_idea a u (Stored d) =
     (case index_of (has_id a) (coll d ''ideas'') of
        None \<Rightarrow> (Inl (HTTPException 404), Stored d)
      | Some i \<Rightarrow>
          (Inr (((coll d ''ideas'' ! i) ++ idea_updates u)
                  (''comments'' \<mapsto> JInt (int (length (filter (\<lambda>c. dict_get c ''idea_id'' = JStr a)
                                                   (coll d ''comments'')))))),
           Stored (d(''ideas'' \<mapsto> (coll d ''ideas'')[i := (coll d ''ideas'' ! i) ++ idea_updates u]))))"
  by (simp add: ideas_router_update_idea_def ideas_get_idea_Stored
        IdeasFileStorage_update_idea_def save_then_return_def Let_def split: option.splits)

lemma ideas_storage_delete_Stored:
  "IdeasFileStorage_delete_idea a (Stored d) =
     (case index_of (has_id a) (coll d ''ideas'') of
        None \<Rightarrow> (Inr False, Stored d)
      | Some i \<Rightarrow>
          (Inr True,
           Stored (d(''ideas'' \<mapsto> pop (coll d ''ideas'') i,
                     ''comments'' \<mapsto> filter (\<lambda>c. dict_get c ''idea_id'' \<noteq> JStr a) (coll d ''comments''),
                     ''likes'' \<mapsto> filter (\<lambda>l. dict_get l ''idea_id'' \<noteq> JStr a) (coll d ''likes'')))))"
  by (simp add: IdeasFileStorage_delete_idea_def save_then_return_def Let_def split: option.splits)

lemma ideas_delete_Stored:
  "ideas_router_delete_idea a (Stored d) =
     (case index_of (has_id a) (coll d ''ideas'') of
        None \<Rightarrow> (Inl (HTTPException 404), Stored d)
      | Some i \<Rightarrow>
          (Inr (),
           Stored (d(''ideas'' \<mapsto> pop (coll d ''ideas'') i,
                     ''comments'' \<mapsto> filter (\<lambda>c. dict_get c ''idea_id'' \<noteq> JStr a) (coll d ''comments''),
                     ''likes'' \<mapsto> filter (\<lambda>l. dict_get l ''idea_id'' \<noteq> JStr a) (coll d ''likes'')))))"
  by (simp add: ideas_router_delete_idea_def ideas_get_idea_Stored
        ideas_storage_delete_Stored split: option.splits)

lemma ideas_storage_toggle_Stored:
  "IdeasFileStorage_toggle_like uuid now a u (Stored d) =
     (case index_of (has_id a) (coll d ''ideas'') of
        None \<Rightarrow> (Inr None, Stored d)
      | Some i \<Rightarrow>
          (case py_int (dict_get_d (coll d ''ideas'' ! i) ''likes'' (JInt 0)) of
             Inl e \<Rightarrow> (Inl e, Stored d)
           | Inr n \<Rightarrow>
               (case index_of (like_of a u) (coll d ''likes'') of
                  Some j \<Rightarrow>
                    (Inr (Some ((coll d ''ideas'' ! i)
                            (''likes'' \<mapsto> JInt (max 0 (n - 1)),
                             ''userLiked'' \<mapsto> JBool False,
                             ''comments'' \<mapsto> JInt (int (length (filter (\<lambda>c. dict_get c ''idea_id'' = JStr a)
                                                              (coll d ''comments''))))))),
                     Stored (d(''ideas'' \<mapsto> (coll d ''ideas'')
                                  [i := (coll d ''ideas'' ! i)(''likes'' \<mapsto> JInt (max 0 (n - 1)))],
                               ''likes'' \<mapsto> pop (coll d ''likes'') j)))
                | None \<Rightarrow>
                    (Inr (Some ((coll d ''ideas'' ! i)
                            (''likes'' \<mapsto> JInt (n + 1),
                             ''userLiked'' \<mapsto> JBool True,
                             ''comments'' \<mapsto> JInt (int (length (filter (\<lambda>c. dict_get c ''idea_id'' = JStr a)
                                                              (coll d ''comments''))))))),
                     Stored (d(''ideas'' \<mapsto> (coll d ''ideas'')
                                  [i := (coll d ''ideas'' ! i)(''likes'' \<mapsto> JInt (n + 1))],
                               ''likes'' \<mapsto> coll d ''likes'' @
                                  [[''id'' \<mapsto> JStr uuid, ''user_id'' \<mapsto> JStr u,
                                    ''idea_id'' \<mapsto> JStr a, ''created_at'' \<mapsto> JStr now]])))))) "
  by (simp add: IdeasFileStorage_toggle_like_def save_then_return_def Let_def
           split: option.splits sum.splits)

lemma ideas_toggle_Stored:
  "ideas_router_toggle_like uuid now a uo (Stored d) =
     (case IdeasFileStorage_toggle_like uuid now a
             (case uo of None \<Rightarrow> ''anonymous'' | Some u \<Rightarrow> u) (Stored d) of
        (Inl e, f) \<Rightarrow> (Inl e, f)
      | (Inr None, f) \<Rightarrow> (Inl (HTTPException 404), f)
      | (Inr (Some r), f) \<Rightarrow> (Inr r, f))"
  by (simp add: ideas_router_toggle_like_def ideas_get_idea_Stored
        ideas_storage_toggle_Stored split: option.splits sum.splits)

lemma ideas_comment_Stored:
  "\<exists>cs. snd (ideas_router_add_comment uuid now a c (Stored d)) =
     Stored (if index_of (has_id a) (coll d ''ideas'') = None then d
             else d(''comments'' \<mapsto> cs))"
  by (auto simp add: ideas_router_add_comment_def ideas_get_idea_Stored
        IdeasFileStorage_add_comment_def find_index_of save_then_return_def Let_def
        split: option.splits)


subsection \<open>Lists: find, pop and filter\<close>

lemma find_append_Some: "find P xs = Some x \<Longrightarrow> find P (xs @ ys) = Some x"
  by (induction xs) (auto split: if_splits)

lemma pop_Cons_Suc: "pop (x # xs) (Suc i) = x # pop xs i"
  by (simp add: pop_def)

lemma pop_Cons_0: "pop (x # xs) 0 = xs"
  by (simp add: pop_def)

lemma set_pop_subset: "set (pop xs i) \<subseteq> set xs"
  unfolding pop_def using set_take_subset [of i xs] set_drop_subset [of "Suc i" xs] by auto

lemma find_pop_other:
  "i < length xs \<Longrightarrow> \<not> P (xs ! i) \<Longrightarrow> find P (pop xs i) = find P xs"
proof (induction xs arbitrary: i)
  case Nil
  then show ?case by simp
next
  case (Cons x xs)
  show ?case
  proof (cases i)
    case 0
    with Cons.prems show ?thesis by (simp add: pop_Cons_0)
  next
    case (Suc k)
    with Cons.prems Cons.IH [of k] show ?thesis by (simp add: pop_Cons_Suc)
  qed
qed

lemma find_update_other:
  "\<not> P (xs ! i) \<Longrightarrow> \<not> P y \<Longrightarrow> find P (xs[i := y]) = find P xs"
proof (induction xs arbitrary: i)
  case Nil
  then show ?case by simp
next
  case (Cons x xs)
  then show ?case by (cases i) auto
qed

lemma find_update_first:
  "index_of P xs = Some i \<Longrightarrow> P y \<Longrightarrow> find P (xs[i := y]) = Some y"
proof (induction xs arbitrary: i)
  case Nil
  then show ?case by simp
next
  case (Cons x xs)
  then show ?case by (cases i) (auto split: if_splits)
qed

lemma find_cong_keys:
  assumes "map g xs = map g ys" and "\<And>x y. g x = g y \<Longrightarrow> P x = P y"
  shows "map_option g (find P xs) = map_option g (find P ys)"
  using assms(1)
proof (induction xs arbitrary: ys)
  case Nil
  then show ?case by simp
next
  case (Cons x xs)
  then obtain y ys' where ys: "ys = y # ys'" "g x = g y" "map g xs = map g ys'"
    by (cases ys) auto
  from assms(2) [OF ys(2)] Cons.IH [OF ys(3)] ys show ?case by simp
qed

lemma filter_pop_other:
  "i < length xs \<Longrightarrow> \<not> P (xs ! i) \<Longrightarrow> filter P (pop xs i) = filter P xs"
proof -
  assume a: "i < length xs" "\<not> P (xs ! i)"
  have "filter P xs = filter P (take i xs @ xs ! i # drop (Suc i) xs)"
    using a(1) by (simp add: id_take_nth_drop [symmetric])
  with a(2) show ?thesis by (simp add: pop_def)
qed

lemma length_filter_pop:
  "i < length xs \<Longrightarrow> P (xs ! i) \<Longrightarrow> Suc (length (filter P (pop xs i))) = length (filter P xs)"
proof -
  assume a: "i < length xs" "P (xs ! i)"
  have "filter P xs = filter P (take i xs @ xs ! i # drop (Suc i) xs)"
    using a(1) by (simp add: id_take_nth_drop [symmetric])
  with a(2) show ?thesis by (simp add: pop_def)
qed

lemma distinct_map_pop: "distinct (map f xs) \<Longrightarrow> distinct (map f (pop xs i))"
proof (induction xs arbitrary: i)
  case Nil
  then show ?case by (simp add: pop_def)
next
  case (Cons x xs)
  show ?case
  proof (cases i)
    case 0
    with Cons.prems show ?thesis by (simp add: pop_Cons_0)
  next
    case (Suc k)
    from Cons.prems have "f x \<notin> f ` set xs" and d: "distinct (map f xs)" by auto
    with set_pop_subset [of xs k] have "f x \<notin> f ` set (pop xs k)" by blast
    with Cons.IH [OF d, of k] Suc show ?thesis by (simp add: pop_Cons_Suc)
  qed
qed

lemma pop_not_in:
  assumes "distinct (map f xs)" and "i < length xs"
  shows "f (xs ! i) \<notin> f ` set (pop xs i)"
proof -
  have "xs = take i xs @ xs ! i # drop (Suc i) xs"
    using assms(2) by (rule id_take_nth_drop)
  then have "distinct (map f (take i xs) @ f (xs ! i) # map f (drop (Suc i) xs))"
    using assms(1) by (metis list.simps(9) map_append)
  then show ?thesis by (auto simp: pop_def)
qed


subsection \<open>The invariants, unfolded\<close>

lemma counters_nonneg_iff:
  "counters_nonneg ideas \<longleftrightarrow> (\<forall>x\<in>set ideas. \<exists>n. likes_counter x = Some n \<and> 0 \<le> n)"
  by (auto simp: counters_nonneg_def list_all_iff split: option.splits)

lemma likes_backed_iff:
  "likes_backed ideas likes \<longleftrightarrow>
     (\<forall>l\<in>set likes. \<exists>a x n. dict_get l ''idea_id'' = JStr a \<and>
         find (has_id a) ideas = Some x \<and> likes_counter x = Some n \<and>
         int (length (rows_for a likes)) \<le> n)"
proof -
  have "(case v of
           JStr a \<Rightarrow>
             (case find (has_id a) ideas of
                Some x \<Rightarrow>
                  (case likes_counter x of
                     Some n \<Rightarrow> int (length (rows_for a likes)) \<le> n
                   | None \<Rightarrow> False)
              | None \<Rightarrow> False)
         | _ \<Rightarrow> False) \<longleftrightarrow>
        (\<exists>a x n. v = JStr a \<and> find (has_id a) ideas = Some x \<and> likes_counter x = Some n \<and>
           int (length (rows_for a likes)) \<le> n)" for v
    by (cases v) (simp_all split: option.splits)
  then show ?thesis
    by (simp add: likes_backed_def list_all_iff)
qed

lemma likes_counter_py_int:
  "likes_counter x = Some n \<Longrightarrow> py_int (dict_get_d x ''likes'' (JInt 0)) = Inr n"
  by (auto simp: likes_counter_def dict_get_d_def split: option.splits jval.splits)

lemma likes_counter_upd [simp]: "likes_counter (x(''likes'' \<mapsto> JInt n)) = Some n"
  by (simp add: likes_counter_def)

lemma has_id_likes_upd [simp]: "has_id a (x(''likes'' \<mapsto> v)) = has_id a x"
  by (simp add: has_id_def dict_get_def dict_get_d_def)

lemma has_id_unique: "has_id a x \<Longrightarrow> has_id b x \<Longrightarrow> a = b"
  by (simp add: has_id_def)

lemma find_first: "index_of P xs = Some i \<Longrightarrow> find P xs = Some (xs ! i)"
  by (simp add: find_index_of)

text \<open>The counter of the idea that \<open>toggle_like\<close> updates bounds the number of its rows.\<close>

lemma backed_bound:
  assumes "likes_backed ideas likes" and "counters_nonneg ideas"
      and "index_of (has_id a) ideas = Some i" and "likes_counter (ideas ! i) = Some n"
  shows "int (length (rows_for a likes)) \<le> n"
proof (cases "rows_for a likes")
  case Nil
  from index_of_SomeD [OF assms(3)] have "ideas ! i \<in> set ideas" by simp
  with assms(2,4) have "0 \<le> n" by (auto simp: counters_nonneg_iff)
  with Nil show ?thesis by simp
next
  case (Cons l ls)
  then have "l \<in> set (rows_for a likes)" by simp
  then have l: "l \<in> set likes" "dict_get l ''idea_id'' = JStr a"
    by (auto simp: rows_for_def)
  with assms(1) obtain a' x m where
    "dict_get l ''idea_id'' = JStr a'"
    "find (has_id a') ideas = Some x" "likes_counter x = Some m"
    "int (length (rows_for a' likes)) \<le> m"
    unfolding likes_backed_iff by blast
  with l(2) find_first [OF assms(3)] assms(4) show ?thesis by simp
qed

subsection \<open>Each route keeps the invariants\<close>

lemma inv_create:
  assumes "counters_nonneg ideas" and "likes_backed ideas likes"
      and "likes_counter x = Some 0"
  shows "counters_nonneg (ideas @ [x]) \<and> likes_backed (ideas @ [x]) likes"
proof -
  have 1: "counters_nonneg (ideas @ [x])"
    using assms(1,3) by (simp add: counters_nonneg_iff)
  have 2: "likes_backed (ideas @ [x]) likes"
    unfolding likes_backed_iff
  proof
    fix l assume "l \<in> set likes"
    with assms(2) obtain a y n where
      a: "dict_get l ''idea_id'' = JStr a" "find (has_id a) ideas = Some y"
         "likes_counter y = Some n" "int (length (rows_for a likes)) \<le> n"
      unfolding likes_backed_iff by blast
    from find_append_Some [OF a(2), of "[x]"] a
    show "\<exists>a y n. dict_get l ''idea_id'' = JStr a \<and>
        find (has_id a) (ideas @ [x]) = Some y \<and> likes_counter y = Some n \<and>
        int (length (rows_for a likes)) \<le> n"
      by blast
  qed
  from 1 2 show ?thesis ..
qed

lemma inv_update:
  assumes "counters_nonneg ideas" and "likes_backed ideas likes"
      and "i < length ideas"
      and "dict_get y ''id'' = dict_get (ideas ! i) ''id''"
      and "likes_counter y = likes_counter (ideas ! i)"
  shows "counters_nonneg (ideas[i := y]) \<and> likes_backed (ideas[i := y]) likes"
proof -
  let ?g = "\<lambda>x. (dict_get x ''id'', likes_counter x)"
  have m: "map ?g (ideas[i := y]) = map ?g ideas"
    using assms(3,4,5) by (simp add: map_update list_update_same_conv)
  have f: "map_option ?g (find (has_id a) (ideas[i := y])) = map_option ?g (find (has_id a) ideas)"
    for a
    by (rule find_cong_keys [OF m]) (simp add: has_id_def)
  have 1: "counters_nonneg (ideas[i := y])"
    unfolding counters_nonneg_iff
  proof
    fix x assume "x \<in> set (ideas[i := y])"
    then have "x = y \<or> x \<in> set ideas" using set_update_subset_insert [of ideas i y] by auto
    moreover have "ideas ! i \<in> set ideas" using assms(3) by simp
    ultimately show "\<exists>n. likes_counter x = Some n \<and> 0 \<le> n"
      using assms(1,5) by (auto simp: counters_nonneg_iff)
  qed
  have 2: "likes_backed (ideas[i := y]) likes"
    unfolding likes_backed_iff
  proof
    fix l assume "l \<in> set likes"
    with assms(2) obtain a x n where
      a: "dict_get l ''idea_id'' = JStr a" "find (has_id a) ideas = Some x"
         "likes_counter x = Some n" "int (length (rows_for a likes)) \<le> n"
      unfolding likes_backed_iff by blast
    from f [of a] a(2) obtain x' where
      "find (has_id a) (ideas[i := y]) = Some x'" "likes_counter x' = likes_counter x"
      by (cases "find (has_id a) (ideas[i := y])") auto
    with a show "\<exists>a x n. dict_get l ''idea_id'' = JStr a \<and>
        find (has_id a) (ideas[i := y]) = Some x \<and> likes_counter x = Some n \<and>
        int (length (rows_for a likes)) \<le> n"
      by auto
  qed
  from 1 2 show ?thesis ..
qed

lemma rows_for_filter_other:
  "a \<noteq> a0 \<Longrightarrow>
   rows_for a (filter (\<lambda>l. dict_get l ''idea_id'' \<noteq> JStr a0) likes) = rows_for a likes"
  unfolding rows_for_def filter_filter
  by (rule filter_cong) auto

lemma inv_delete:
  assumes "counters_nonneg ideas" and "like_unique likes" and "likes_backed ideas likes"
      and "index_of (has_id a0) ideas = Some i"
  shows "counters_nonneg (pop ideas i) \<and>
         like_unique (filter (\<lambda>l. dict_get l ''idea_id'' \<noteq> JStr a0) likes) \<and>
         likes_backed (pop ideas i) (filter (\<lambda>l. dict_get l ''idea_id'' \<noteq> JStr a0) likes)"
proof -
  from index_of_SomeD [OF assms(4)] have i: "i < length ideas" "has_id a0 (ideas ! i)" by auto
  have 1: "counters_nonneg (pop ideas i)"
    using assms(1) set_pop_subset [of ideas i] by (auto simp: counters_nonneg_iff)
  have 2: "like_unique (filter (\<lambda>l. dict_get l ''idea_id'' \<noteq> JStr a0) likes)"
    using assms(2) unfolding like_unique_def by (rule distinct_map_filter)
  have 3: "likes_backed (pop ideas i) (filter (\<lambda>l. dict_get l ''idea_id'' \<noteq> JStr a0) likes)"
    unfolding likes_backed_iff
  proof
    fix l assume "l \<in> set (filter (\<lambda>l. dict_get l ''idea_id'' \<noteq> JStr a0) likes)"
    then have l: "l \<in> set likes" "dict_get l ''idea_id'' \<noteq> JStr a0" by auto
    with assms(3) obtain a x n where
      a: "dict_get l ''idea_id'' = JStr a" "find (has_id a) ideas = Some x"
         "likes_counter x = Some n" "int (length (rows_for a likes)) \<le> n"
      unfolding likes_backed_iff by blast
    from a(1) l(2) have ne: "a \<noteq> a0" by auto
    with i(2) have "\<not> has_id a (ideas ! i)" using has_id_unique by blast
    from find_pop_other [of i ideas "has_id a", OF i(1) this] a(2)
    have "find (has_id a) (pop ideas i) = Some x" by simp
    with a rows_for_filter_other [OF ne, of likes]
    show "\<exists>a x n. dict_get l ''idea_id'' = JStr a \<and>
        find (has_id a) (pop ideas i) = Some x \<and> likes_counter x = Some n \<and>
        int (length (rows_for a (filter (\<lambda>l. dict_get l ''idea_id'' \<noteq> JStr a0) likes))) \<le> n"
      by auto
  qed
  from 1 2 3 show ?thesis by blast
qed


lemma nonneg_after_toggle:
  assumes "counters_nonneg ideas" and "0 \<le> n'"
  shows "counters_nonneg (ideas[i := (ideas ! i)(''likes'' \<mapsto> JInt n')])"
  unfolding counters_nonneg_iff
proof
  fix x assume "x \<in> set (ideas[i := (ideas ! i)(''likes'' \<mapsto> JInt n')])"
  then have "x = (ideas ! i)(''likes'' \<mapsto> JInt n') \<or> x \<in> set ideas"
    using set_update_subset_insert [of ideas i] by auto
  with assms show "\<exists>n. likes_counter x = Some n \<and> 0 \<le> n"
    by (auto simp: counters_nonneg_iff)
qed

lemma backed_after_toggle:
  assumes lb: "likes_backed ideas likes"
      and idx: "index_of (has_id a) ideas = Some i"
      and others: "\<And>a'. a' \<noteq> a \<Longrightarrow> rows_for a' likes' = rows_for a' likes"
      and sub: "\<And>l. l \<in> set likes' \<Longrightarrow> dict_get l ''idea_id'' \<noteq> JStr a \<Longrightarrow> l \<in> set likes"
      and bound: "int (length (rows_for a likes')) \<le> n'"
  shows "likes_backed (ideas[i := (ideas ! i)(''likes'' \<mapsto> JInt n')]) likes'"
  unfolding likes_backed_iff
proof
  let ?x' = "(ideas ! i)(''likes'' \<mapsto> JInt n')"
  let ?ideas' = "ideas[i := ?x']"
  fix l assume l: "l \<in> set likes'"
  from index_of_SomeD [OF idx] have i: "has_id a (ideas ! i)" by simp
  show "\<exists>a x n. dict_get l ''idea_id'' = JStr a \<and> find (has_id a) ?ideas' = Some x \<and>
          likes_counter x = Some n \<and> int (length (rows_for a likes')) \<le> n"
  proof (cases "dict_get l ''idea_id'' = JStr a")
    case True
    have "find (has_id a) ?ideas' = Some ?x'"
      using idx i by (intro find_update_first) simp_all
    with True bound show ?thesis by auto
  next
    case False
    from sub [OF l False] lb obtain a' x m where
      a': "dict_get l ''idea_id'' = JStr a'" "find (has_id a') ideas = Some x"
          "likes_counter x = Some m" "int (length (rows_for a' likes)) \<le> m"
      unfolding likes_backed_iff by blast
    from a'(1) False have ne: "a' \<noteq> a" by auto
    with i have n1: "\<not> has_id a' (ideas ! i)" using has_id_unique by blast
    then have n2: "\<not> has_id a' ?x'" by simp
    from find_update_other [of "has_id a'" ideas i ?x', OF n1 n2] a'(2)
    have "find (has_id a') ?ideas' = Some x" by simp
    with a' others [OF ne] show ?thesis by auto
  qed
qed

lemma like_of_iff:
  "like_of a u l \<longleftrightarrow> dict_get l ''idea_id'' = JStr a \<and> dict_get l ''user_id'' = JStr u"
  by (simp add: like_of_def)

lemma inv_toggle_like:
  assumes cn: "counters_nonneg ideas" and lu: "like_unique likes"
      and lb: "likes_backed ideas likes"
      and idx: "index_of (has_id a) ideas = Some i"
      and cnt: "likes_counter (ideas ! i) = Some n"
      and none: "index_of (like_of a u) likes = None"
      and row: "dict_get row ''idea_id'' = JStr a" "dict_get row ''user_id'' = JStr u"
  shows "counters_nonneg (ideas[i := (ideas ! i)(''likes'' \<mapsto> JInt (n + 1))]) \<and>
         like_unique (likes @ [row]) \<and>
         likes_backed (ideas[i := (ideas ! i)(''likes'' \<mapsto> JInt (n + 1))]) (likes @ [row])"
proof -
  from index_of_SomeD [OF idx] have "ideas ! i \<in> set ideas" by simp
  with cn cnt have n0: "0 \<le> n" by (auto simp: counters_nonneg_iff)
  then have 1: "counters_nonneg (ideas[i := (ideas ! i)(''likes'' \<mapsto> JInt (n + 1))])"
    using cn by (intro nonneg_after_toggle) simp_all
  from none have "\<forall>l\<in>set likes. \<not> like_of a u l" by (simp add: index_of_None_iff)
  then have "(JStr u, JStr a) \<notin> (\<lambda>l. (dict_get l ''user_id'', dict_get l ''idea_id'')) ` set likes"
    by (auto simp: like_of_iff)
  with lu row have 2: "like_unique (likes @ [row])"
    by (simp add: like_unique_def)
  have b: "int (length (rows_for a (likes @ [row]))) \<le> n + 1"
    using backed_bound [OF lb cn idx cnt] row(1) by (simp add: rows_for_def)
  have 3: "likes_backed (ideas[i := (ideas ! i)(''likes'' \<mapsto> JInt (n + 1))]) (likes @ [row])"
  proof (rule backed_after_toggle [OF lb idx _ _ b])
    fix a' assume "a' \<noteq> a"
    with row(1) show "rows_for a' (likes @ [row]) = rows_for a' likes"
      by (simp add: rows_for_def)
  next
    fix l assume "l \<in> set (likes @ [row])" "dict_get l ''idea_id'' \<noteq> JStr a"
    with row(1) show "l \<in> set likes" by auto
  qed
  from 1 2 3 show ?thesis by blast
qed

lemma inv_toggle_unlike:
  assumes cn: "counters_nonneg ideas" and lu: "like_unique likes"
      and lb: "likes_backed ideas likes"
      and idx: "index_of (has_id a) ideas = Some i"
      and cnt: "likes_counter (ideas ! i) = Some n"
      and some: "index_of (like_of a u) likes = Some j"
  shows "1 \<le> n \<and>
         index_of (like_of a u) (pop likes j) = None \<and>
         counters_nonneg (ideas[i := (ideas ! i)(''likes'' \<mapsto> JInt (n - 1))]) \<and>
         like_unique (pop likes j) \<and>
         likes_backed (ideas[i := (ideas ! i)(''likes'' \<mapsto> JInt (n - 1))]) (pop likes j)"
proof -
  let ?key = "\<lambda>l. (dict_get l ''user_id'', dict_get l ''idea_id'')"
  from index_of_SomeD [OF some] have j: "j < length likes" "like_of a u (likes ! j)" by auto
  then have ja: "dict_get (likes ! j) ''idea_id'' = JStr a" by (simp add: like_of_iff)
  from length_filter_pop [of j likes "\<lambda>l. dict_get l ''idea_id'' = JStr a", OF j(1) ja]
  have len: "Suc (length (rows_for a (pop likes j))) = length (rows_for a likes)"
    by (simp add: rows_for_def)
  with backed_bound [OF lb cn idx cnt] have n1: "1 \<le> n" and
    b: "int (length (rows_for a (pop likes j))) \<le> n - 1"
    by linarith+
  from pop_not_in [of ?key likes j] lu j(1)
  have "?key (likes ! j) \<notin> ?key ` set (pop likes j)" by (simp add: like_unique_def)
  with j(2) have "\<forall>l\<in>set (pop likes j). \<not> like_of a u l"
    by (force simp: like_of_iff image_iff)
  then have 0: "index_of (like_of a u) (pop likes j) = None"
    by (simp add: index_of_None_iff)
  have 1: "counters_nonneg (ideas[i := (ideas ! i)(''likes'' \<mapsto> JInt (n - 1))])"
    using cn n1 by (intro nonneg_after_toggle) simp_all
  have 2: "like_unique (pop likes j)"
    using lu unfolding like_unique_def by (rule distinct_map_pop)
  have 3: "likes_backed (ideas[i := (ideas ! i)(''likes'' \<mapsto> JInt (n - 1))]) (pop likes j)"
  proof (rule backed_after_toggle [OF lb idx _ _ b])
    fix a' assume "a' \<noteq> a"
    with ja have "\<not> dict_get (likes ! j) ''idea_id'' = JStr a'" by simp
    from filter_pop_other [of j likes "\<lambda>l. dict_get l ''idea_id'' = JStr a'", OF j(1) this]
    show "rows_for a' (pop likes j) = rows_for a' likes"
      by (simp add: rows_for_def)
  next
    fix l assume "l \<in> set (pop likes j)"
    with set_pop_subset [of likes j] show "l \<in> set likes" by blast
  qed
  from n1 0 1 2 3 show ?thesis by blast
qed

subsection \<open>Reachable states satisfy the invariants\<close>

lemma ideas_inv_Stored:
  "ideas_inv (Stored d) \<longleftrightarrow>
     counters_nonneg (coll d ''ideas'') \<and> like_unique (coll d ''likes'') \<and>
     likes_backed (coll d ''ideas'') (coll d ''likes'')"
  by (simp add: ideas_inv_def)

lemma ideas_inv_is_Stored: "ideas_inv f \<Longrightarrow> \<exists>d. f = Stored d"
  by (auto simp: ideas_inv_def elim: is_stored.elims)

lemma initialize_file_Inr:
  "IdeasFileStorage_initialize_file f = Inr f0 \<Longrightarrow> f0 = Stored ideas_initial_data"
proof (cases f)
  case (File c w)
  assume "IdeasFileStorage_initialize_file f = Inr f0"
  with File show ?thesis
    by (cases w) (auto simp: IdeasFileStorage_initialize_file_def)
qed

lemma ideas_inv_initial: "ideas_inv (Stored ideas_initial_data)"
  by (simp add: ideas_inv_Stored ideas_initial_data_def
        counters_nonneg_def like_unique_def likes_backed_def coll_def)

lemma ideas_inv_startup: "IdeasFileStorage_initialize_file f = Inr f0 \<Longrightarrow> ideas_inv f0"
  using initialize_file_Inr ideas_inv_initial by blast

lemma ideas_inv_create:
  assumes "ideas_inv (Stored d)"
  shows "ideas_inv (snd (ideas_router_create_idea uuid now c (Stored d)))"
proof -
  let ?x = "[''id'' \<mapsto> JStr uuid,
         ''title'' \<mapsto> JStr (ic_title c),
         ''description'' \<mapsto> JStr (ic_description c),
         ''author'' \<mapsto> JStr (ic_author c),
         ''date'' \<mapsto> JStr now,
         ''likes'' \<mapsto> JInt 0,
         ''tags'' \<mapsto> JList (map JStr (ic_tags c)),
         ''userLiked'' \<mapsto> JBool False]"
  have "likes_counter ?x = Some 0" by (simp add: likes_counter_def)
  from inv_create [OF _ _ this, of "coll d ''ideas''" "coll d ''likes''"] assms
  show ?thesis
    unfolding ideas_create_Stored by (simp add: ideas_inv_Stored)
qed

lemma idea_updates_other:
  "k \<noteq> ''title'' \<Longrightarrow> k \<noteq> ''description'' \<Longrightarrow> k \<noteq> ''tags'' \<Longrightarrow> idea_updates u k = None"
  by (simp add: idea_updates_def Let_def split: option.splits)

lemma ideas_inv_update:
  assumes "ideas_inv (Stored d)"
  shows "ideas_inv (snd (ideas_router_update_idea a u (Stored d)))"
proof (cases "index_of (has_id a) (coll d ''ideas'')")
  case None
  with assms show ?thesis by (simp add: ideas_update_Stored)
next
  case (Some i)
  let ?y = "(coll d ''ideas'' ! i) ++ idea_updates u"
  from index_of_SomeD [OF Some] have i: "i < length (coll d ''ideas'')" by simp
  have 1: "dict_get ?y ''id'' = dict_get (coll d ''ideas'' ! i) ''id''"
    by (simp add: dict_get_def dict_get_d_def map_add_def idea_updates_other)
  have 2: "likes_counter ?y = likes_counter (coll d ''ideas'' ! i)"
    by (simp add: likes_counter_def map_add_def idea_updates_other)
  from inv_update [OF _ _ i 1 2, of "coll d ''likes''"] assms Some
  show ?thesis by (simp add: ideas_update_Stored ideas_inv_Stored)
qed

lemma ideas_inv_delete:
  assumes "ideas_inv (Stored d)"
  shows "ideas_inv (snd (ideas_router_delete_idea a (Stored d)))"
proof (cases "index_of (has_id a) (coll d ''ideas'')")
  case None
  with assms show ?thesis by (simp add: ideas_delete_Stored)
next
  case (Some i)
  from inv_delete [OF _ _ _ Some, of "coll d ''likes''"] assms Some
  show ?thesis by (simp add: ideas_delete_Stored ideas_inv_Stored)
qed

text \<open>One \<open>toggle_like\<close> on a stored document, by whether the Like row exists.\<close>

lemma storage_toggle_new:
  assumes "index_of (has_id a) (coll d ''ideas'') = Some i"
      and "likes_counter (coll d ''ideas'' ! i) = Some n"
      and "index_of (like_of a u) (coll d ''likes'') = None"
  shows "IdeasFileStorage_toggle_like uuid now a u (Stored d) =
           (Inr (Some ((coll d ''ideas'' ! i)
                   (''likes'' \<mapsto> JInt (n + 1),
                    ''userLiked'' \<mapsto> JBool True,
                    ''comments'' \<mapsto> JInt (int (length (filter (\<lambda>c. dict_get c ''idea_id'' = JStr a)
                                                     (coll d ''comments''))))))),
            Stored (d(''ideas'' \<mapsto> (coll d ''ideas'')
                         [i := (coll d ''ideas'' ! i)(''likes'' \<mapsto> JInt (n + 1))],
                      ''likes'' \<mapsto> coll d ''likes'' @
                         [[''id'' \<mapsto> JStr uuid, ''user_id'' \<mapsto> JStr u,
                           ''idea_id'' \<mapsto> JStr a, ''created_at'' \<mapsto> JStr now]])))"
  unfolding ideas_storage_toggle_Stored
  by (simp add: assms likes_counter_py_int [OF assms(2)])

lemma storage_toggle_old:
  assumes "index_of (has_id a) (coll d ''ideas'') = Some i"
      and "likes_counter (coll d ''ideas'' ! i) = Some n"
      and "index_of (like_of a u) (coll d ''likes'') = Some j"
      and "1 \<le> n"
  shows "IdeasFileStorage_toggle_like uuid now a u (Stored d) =
           (Inr (Some ((coll d ''ideas'' ! i)
                   (''likes'' \<mapsto> JInt (n - 1),
                    ''userLiked'' \<mapsto> JBool False,
                    ''comments'' \<mapsto> JInt (int (length (filter (\<lambda>c. dict_get c ''idea_id'' = JStr a)
                                                     (coll d ''comments''))))))),
            Stored (d(''ideas'' \<mapsto> (coll d ''ideas'')
                         [i := (coll d ''ideas'' ! i)(''likes'' \<mapsto> JInt (n - 1))],
                      ''likes'' \<mapsto> pop (coll d ''likes'') j)))"
proof -
  from assms(4) have "max 0 (n - 1) = n - 1" by simp
  then show ?thesis
    unfolding ideas_storage_toggle_Stored
    by (simp add: assms likes_counter_py_int [OF assms(2)])
qed

lemma inv_counter:
  assumes "ideas_inv (Stored d)" and "index_of (has_id a) (coll d ''ideas'') = Some i"
  shows "\<exists>n. likes_counter (coll d ''ideas'' ! i) = Some n \<and> 0 \<le> n"
proof -
  from index_of_SomeD [OF assms(2)] have "coll d ''ideas'' ! i \<in> set (coll d ''ideas'')" by simp
  with assms(1) show ?thesis by (auto simp: ideas_inv_Stored counters_nonneg_iff)
qed

lemma ideas_inv_storage_toggle:
  assumes inv: "ideas_inv (Stored d)"
  shows "ideas_inv (snd (IdeasFileStorage_toggle_like uuid now a u (Stored d)))"
proof (cases "index_of (has_id a) (coll d ''ideas'')")
  case None
  with inv show ?thesis by (simp add: ideas_storage_toggle_Stored)
next
  case (Some i)
  from inv have cn: "counters_nonneg (coll d ''ideas'')" and lu: "like_unique (coll d ''likes'')"
    and lb: "likes_backed (coll d ''ideas'') (coll d ''likes'')"
    by (simp_all add: ideas_inv_Stored)
  from inv_counter [OF inv Some] obtain n where
    n: "likes_counter (coll d ''ideas'' ! i) = Some n" by blast
  show ?thesis
  proof (cases "index_of (like_of a u) (coll d ''likes'')")
    case None
    let ?row = "[''id'' \<mapsto> JStr uuid, ''user_id'' \<mapsto> JStr u,
                 ''idea_id'' \<mapsto> JStr a, ''created_at'' \<mapsto> JStr now]"
    have r: "dict_get ?row ''idea_id'' = JStr a" "dict_get ?row ''user_id'' = JStr u"
      by (simp_all add: dict_get_def dict_get_d_def)
    from inv_toggle_like [OF cn lu lb Some n None r]
    show ?thesis
      unfolding storage_toggle_new [OF Some n None] by (simp add: ideas_inv_Stored)
  next
    case j: (Some j)
    note u = inv_toggle_unlike [OF cn lu lb Some n j]
    then have n1: "1 \<le> n" by simp
    from u show ?thesis
      unfolding storage_toggle_old [OF Some n j n1] by (simp add: ideas_inv_Stored)
  qed
qed

lemma ideas_inv_toggle:
  assumes "ideas_inv (Stored d)"
  shows "ideas_inv (snd (ideas_router_toggle_like uuid now a uo (Stored d)))"
proof -
  have "snd (ideas_router_toggle_like uuid now a uo (Stored d)) =
        snd (IdeasFileStorage_toggle_like uuid now a
               (case uo of None \<Rightarrow> ''anonymous'' | Some u \<Rightarrow> u) (Stored d))"
    by (simp add: ideas_toggle_Stored split: prod.splits sum.splits option.splits)
  with ideas_inv_storage_toggle [OF assms] show ?thesis by simp
qed

lemma ideas_inv_comment:
  assumes "ideas_inv (Stored d)"
  shows "ideas_inv (snd (ideas_router_add_comment uuid now a c (Stored d)))"
proof -
  from ideas_comment_Stored [of uuid now a c d] obtain cs where
    "snd (ideas_router_add_comment uuid now a c (Stored d)) =
       Stored (if index_of (has_id a) (coll d ''ideas'') = None then d
               else d(''comments'' \<mapsto> cs))"
    by blast
  with assms show ?thesis by (simp add: ideas_inv_Stored)
qed

lemma ideas_reachable_inv: "ideas_reachable f \<Longrightarrow> ideas_inv f"
proof (induction rule: ideas_reachable.induct)
  case (startup f f0)
  then show ?case by (rule ideas_inv_startup)
next
  case (create f uuid now idea)
  then show ?case using ideas_inv_create ideas_inv_is_Stored by blast
next
  case (update f idea_id idea_update)
  then show ?case using ideas_inv_update ideas_inv_is_Stored by blast
next
  case (delete f idea_id)
  then show ?case using ideas_inv_delete ideas_inv_is_Stored by blast
next
  case (toggle f uuid now idea_id user_id)
  then show ?case using ideas_inv_toggle ideas_inv_is_Stored by blast
next
  case (comment f uuid now idea_id c)
  then show ?case using ideas_inv_comment ideas_inv_is_Stored by blast
qed

lemma likes_counter_idem: "likes_counter x = Some n \<Longrightarrow> x(''likes'' \<mapsto> JInt n) = x"
  by (auto simp: likes_counter_def split: option.splits jval.splits)

lemma likes_counter_entry: "likes_counter x = Some n \<Longrightarrow> x ''likes'' = Some (JInt n)"
  by (auto simp: likes_counter_def split: option.splits jval.splits)

text \<open>Two successive toggles by one user on a document that satisfies the invariants.\<close>

lemma double_toggle:
  assumes inv: "ideas_inv (Stored d)"
      and idx: "index_of (has_id a) (coll d ''ideas'') = Some i"
  shows "\<exists>r1 d1 r2 d2.
           IdeasFileStorage_toggle_like uuid1 now1 a u (Stored d) = (Inr (Some r1), Stored d1) \<and>
           IdeasFileStorage_toggle_like uuid2 now2 a u (Stored d1) = (Inr (Some r2), Stored d2) \<and>
           coll d2 ''ideas'' = coll d ''ideas'' \<and>
           r2 ''likes'' = (coll d ''ideas'' ! i) ''likes'' \<and>
           r1 ''userLiked'' = Some (JBool (index_of (like_of a u) (coll d ''likes'') = None)) \<and>
           r2 ''userLiked'' = Some (JBool (index_of (like_of a u) (coll d ''likes'') \<noteq> None)) \<and>
           (index_of (like_of a u) (coll d ''likes'') = None \<longrightarrow>
              coll d2 ''likes'' = coll d ''likes'')"
proof -
  let ?I = "coll d ''ideas''" and ?L = "coll d ''likes''"
  from inv have cn: "counters_nonneg ?I" and lu: "like_unique ?L" and lb: "likes_backed ?I ?L"
    by (simp_all add: ideas_inv_Stored)
  from inv_counter [OF inv idx] obtain n where n: "likes_counter (?I ! i) = Some n" by blast
  from index_of_SomeD [OF idx] have i: "i < length ?I" by simp
  show ?thesis
  proof (cases "index_of (like_of a u) ?L")
    case None
    let ?row = "[''id'' \<mapsto> JStr uuid1, ''user_id'' \<mapsto> JStr u,
                 ''idea_id'' \<mapsto> JStr a, ''created_at'' \<mapsto> JStr now1]"
    let ?d1 = "d(''ideas'' \<mapsto> ?I[i := (?I ! i)(''likes'' \<mapsto> JInt (n + 1))],
                 ''likes'' \<mapsto> ?L @ [?row])"
    note t1 = storage_toggle_new [OF idx n None, of uuid1 now1]
    have idx1: "index_of (has_id a) (coll ?d1 ''ideas'') = Some i"
      using idx i by (simp add: index_of_update)
    have n1: "likes_counter (coll ?d1 ''ideas'' ! i) = Some (n + 1)"
      using i by simp
    have "like_of a u ?row" by (simp add: like_of_def dict_get_def dict_get_d_def)
    with None have j1: "index_of (like_of a u) (coll ?d1 ''likes'') = Some (length ?L)"
      by (simp add: index_of_snoc_new)
    have pos: "1 \<le> n + 1"
      using cn n i by (auto simp: counters_nonneg_iff dest!: nth_mem)
    note t2 = storage_toggle_old [OF idx1 n1 j1 pos, of uuid2 now2]
    have idem: "(?I ! i)(''likes'' \<mapsto> JInt n) = ?I ! i"
      by (rule likes_counter_idem [OF n])
    show ?thesis
      unfolding t1
      apply (intro exI conjI)
            apply (rule refl)
           apply (rule t2)
      using i None idem likes_counter_entry [OF n]
          apply (simp_all add: pop_def)
      done
  next
    case (Some j)
    note u = inv_toggle_unlike [OF cn lu lb idx n Some]
    then have pos: "1 \<le> n" by simp
    let ?d1 = "d(''ideas'' \<mapsto> ?I[i := (?I ! i)(''likes'' \<mapsto> JInt (n - 1))],
                 ''likes'' \<mapsto> pop ?L j)"
    note t1 = storage_toggle_old [OF idx n Some pos, of uuid1 now1]
    have idx1: "index_of (has_id a) (coll ?d1 ''ideas'') = Some i"
      using idx i by (simp add: index_of_update)
    have n1: "likes_counter (coll ?d1 ''ideas'' ! i) = Some (n - 1)"
      using i by simp
    from u have j1: "index_of (like_of a u) (coll ?d1 ''likes'') = None" by simp
    note t2 = storage_toggle_new [OF idx1 n1 j1, of uuid2 now2]
    have idem: "(?I ! i)(''likes'' \<mapsto> JInt n) = ?I ! i"
      by (rule likes_counter_idem [OF n])
    show ?thesis
      unfolding t1
      apply (intro exI conjI)
            apply (rule refl)
           apply (rule t2)
      using i Some idem likes_counter_entry [OF n]
          apply simp_all
      done
  qed
qed

subsection \<open>Ideas: likes\<close>

lemma one_idea_file_reachable: "ideas_reachable one_idea_file"
proof -
  have "IdeasFileStorage_initialize_file Missing = Inr (Stored ideas_initial_data)"
    by (simp add: IdeasFileStorage_initialize_file_def)
  then have "ideas_reachable (Stored ideas_initial_data)"
    by (rule ideas_reachable.startup)
  then show ?thesis
    unfolding one_idea_file_def by (rule ideas_reachable.create)
qed

lemma liked_idea_file_reachable: "ideas_reachable liked_idea_file"
  unfolding liked_idea_file_def by (intro ideas_reachable.toggle one_idea_file_reachable)

lemma one_idea_file_eq:
  "one_idea_file =
     Stored [''ideas'' \<mapsto>
               [[''id'' \<mapsto> JStr ''i1'', ''title'' \<mapsto> JStr ''X'', ''description'' \<mapsto> JStr ''Y'',
                 ''author'' \<mapsto> JStr ''A'', ''date'' \<mapsto> JStr ''January 01, 2024'',
                 ''likes'' \<mapsto> JInt 0, ''tags'' \<mapsto> JList [JStr ''go''],
                 ''userLiked'' \<mapsto> JBool False]],
             ''comments'' \<mapsto> [], ''likes'' \<mapsto> [], ''tags'' \<mapsto> []]"
  unfolding one_idea_file_def ideas_create_Stored
  by (simp add: ideas_initial_data_def coll_def fun_upd_twist)

lemma one_idea_file_idx:
  "index_of (has_id ''i1'') (collection one_idea_file ''ideas'') = Some 0"
  by (simp add: one_idea_file_eq has_id_def dict_get_def dict_get_d_def coll_def)

lemma one_idea_file_likes: "collection one_idea_file ''likes'' = []"
  by (simp add: one_idea_file_eq coll_def)


lemma reachable_Stored:
  assumes "ideas_reachable f"
  obtains d where "f = Stored d" and "ideas_inv (Stored d)"
  using ideas_reachable_inv [OF assms] ideas_inv_is_Stored by blast

text \<open>
  C3. In a reachable ideas document, for an idea that is present and a user who has no
  Like row on it, two successive calls of \<open>toggle_like\<close> both return the idea, the second
  with \<^verbatim>\<open>userLiked\<close> false and the likes counter the idea had at the start; the ideas and the
  Like rows in the file are as they were.
\<close>

theorem toggle_like_twice:
  assumes "ideas_reachable f"
      and "index_of (has_id idea_id) (collection f ''ideas'') = Some i"
      and "\<forall>l\<in>set (collection f ''likes''). \<not> like_of idea_id user_id l"
  shows "\<exists>r1 f1 r2 f2.
           IdeasFileStorage_toggle_like uuid1 now1 idea_id user_id f = (Inr (Some r1), f1) \<and>
           IdeasFileStorage_toggle_like uuid2 now2 idea_id user_id f1 = (Inr (Some r2), f2) \<and>
           r2 ''userLiked'' = Some (JBool False) \<and>
           r2 ''likes'' = (collection f ''ideas'' ! i) ''likes'' \<and>
           collection f2 ''ideas'' = collection f ''ideas'' \<and>
           collection f2 ''likes'' = collection f ''likes''"
proof -
  from assms(1) obtain d where d: "f = Stored d" "ideas_inv (Stored d)"
    by (rule reachable_Stored)
  from assms(2) d have idx: "index_of (has_id idea_id) (coll d ''ideas'') = Some i" by simp
  from assms(3) d have none: "index_of (like_of idea_id user_id) (coll d ''likes'') = None"
    by (simp add: index_of_None_iff)
  from double_toggle [OF d(2) idx, of uuid1 now1 user_id uuid2 now2] none
  obtain r1 d1 r2 d2 where
    "IdeasFileStorage_toggle_like uuid1 now1 idea_id user_id (Stored d) = (Inr (Some r1), Stored d1)"
    "IdeasFileStorage_toggle_like uuid2 now2 idea_id user_id (Stored d1) = (Inr (Some r2), Stored d2)"
    "coll d2 ''ideas'' = coll d ''ideas''"
    "r2 ''likes'' = (coll d ''ideas'' ! i) ''likes''"
    "r2 ''userLiked'' = Some (JBool False)"
    "coll d2 ''likes'' = coll d ''likes''"
    by auto
  with d(1) show ?thesis
    by (intro exI [of _ r1] exI [of _ "Stored d1"] exI [of _ r2] exI [of _ "Stored d2"]) simp
qed

theorem toggle_like_twice_witness:
  "ideas_reachable one_idea_file \<and>
   index_of (has_id ''i1'') (collection one_idea_file ''ideas'') = Some 0 \<and>
   collection one_idea_file ''likes'' = [] \<and>
   (\<exists>r1 f1 r2 f2.
      IdeasFileStorage_toggle_like ''l1'' ''t1'' ''i1'' ''u1'' one_idea_file = (Inr (Some r1), f1) \<and>
      IdeasFileStorage_toggle_like ''l2'' ''t2'' ''i1'' ''u1'' f1 = (Inr (Some r2), f2) \<and>
      r2 ''userLiked'' = Some (JBool False) \<and>
      r2 ''likes'' = Some (JInt 0) \<and>
      collection f2 ''likes'' = [])"
proof -
  have h3: "\<forall>l\<in>set (collection one_idea_file ''likes''). \<not> like_of ''i1'' ''u1'' l"
    by (simp add: one_idea_file_likes)
  have c: "(collection one_idea_file ''ideas'' ! 0) ''likes'' = Some (JInt 0)"
    by (simp add: one_idea_file_eq coll_def)
  from toggle_like_twice [OF one_idea_file_reachable one_idea_file_idx h3,
      of "''l1''" "''t1''" "''l2''" "''t2''"]
  show ?thesis
    using one_idea_file_reachable one_idea_file_idx h3 c one_idea_file_likes by auto
qed


text \<open>
  C4. In every state of the ideas file that the routes reach from the empty document,
  no two Like rows share their user and idea, and every idea's likes counter is an
  integer that is not negative. There \<open>toggle_like\<close> on an idea that is present either
  finds no row of the user, appends one row and raises the counter by one, or finds the row,
  removes that one row and lowers the counter by one; nothing else in the two collections
  changes.
\<close>

theorem likes_lock_step:
  assumes "ideas_reachable f"
  shows "like_unique (collection f ''likes'') \<and>
         counters_nonneg (collection f ''ideas'') \<and>
         (\<forall>uuid now a u i.
            index_of (has_id a) (collection f ''ideas'') = Some i \<longrightarrow>
            (\<exists>n r f'.
               likes_counter (collection f ''ideas'' ! i) = Some n \<and>
               IdeasFileStorage_toggle_like uuid now a u f = (Inr (Some r), f') \<and>
               ((index_of (like_of a u) (collection f ''likes'') = None \<and>
                 collection f' ''likes'' =
                   collection f ''likes'' @
                     [[''id'' \<mapsto> JStr uuid, ''user_id'' \<mapsto> JStr u,
                       ''idea_id'' \<mapsto> JStr a, ''created_at'' \<mapsto> JStr now]] \<and>
                 collection f' ''ideas'' =
                   (collection f ''ideas'')
                     [i := (collection f ''ideas'' ! i)(''likes'' \<mapsto> JInt (n + 1))])
                \<or>
                (\<exists>j. index_of (like_of a u) (collection f ''likes'') = Some j \<and>
                     1 \<le> n \<and>
                     collection f' ''likes'' = pop (collection f ''likes'') j \<and>
                     collection f' ''ideas'' =
                       (collection f ''ideas'')
                         [i := (collection f ''ideas'' ! i)(''likes'' \<mapsto> JInt (n - 1))]))))"
proof -
  from assms obtain d where d: "f = Stored d" "ideas_inv (Stored d)"
    by (rule reachable_Stored)
  let ?I = "coll d ''ideas''" and ?L = "coll d ''likes''"
  from d(2) have cn: "counters_nonneg ?I" and lu: "like_unique ?L" and lb: "likes_backed ?I ?L"
    by (simp_all add: ideas_inv_Stored)
  have step: "\<exists>n r f'.
               likes_counter (?I ! i) = Some n \<and>
               IdeasFileStorage_toggle_like uuid now a u (Stored d) = (Inr (Some r), f') \<and>
               ((index_of (like_of a u) ?L = None \<and>
                 collection f' ''likes'' =
                   ?L @ [[''id'' \<mapsto> JStr uuid, ''user_id'' \<mapsto> JStr u,
                          ''idea_id'' \<mapsto> JStr a, ''created_at'' \<mapsto> JStr now]] \<and>
                 collection f' ''ideas'' = ?I[i := (?I ! i)(''likes'' \<mapsto> JInt (n + 1))])
                \<or>
                (\<exists>j. index_of (like_of a u) ?L = Some j \<and> 1 \<le> n \<and>
                     collection f' ''likes'' = pop ?L j \<and>
                     collection f' ''ideas'' = ?I[i := (?I ! i)(''likes'' \<mapsto> JInt (n - 1))]))"
    if idx: "index_of (has_id a) ?I = Some i" for uuid now a u i
  proof -
    from inv_counter [OF d(2) idx] obtain n where n: "likes_counter (?I ! i) = Some n" by blast
    show ?thesis
    proof (cases "index_of (like_of a u) ?L")
      case None
      from storage_toggle_new [OF idx n None, of uuid now] n None
      show ?thesis by simp
    next
      case (Some j)
      from inv_toggle_unlike [OF cn lu lb idx n Some] have n1: "1 \<le> n" by simp
      from storage_toggle_old [OF idx n Some n1, of uuid now] n Some n1
      show ?thesis by simp
    qed
  qed
  from cn lu step show ?thesis
    unfolding d(1) collection_Stored by blast
qed


lemma liked_idea_file_eq:
  "liked_idea_file =
     Stored ([''ideas'' \<mapsto>
               [[''id'' \<mapsto> JStr ''i1'', ''title'' \<mapsto> JStr ''X'', ''description'' \<mapsto> JStr ''Y'',
                 ''author'' \<mapsto> JStr ''A'', ''date'' \<mapsto> JStr ''January 01, 2024'',
                 ''likes'' \<mapsto> JInt 0, ''tags'' \<mapsto> JList [JStr ''go''],
                 ''userLiked'' \<mapsto> JBool False]],
             ''comments'' \<mapsto> [], ''likes'' \<mapsto> [], ''tags'' \<mapsto> []]
            (''ideas'' \<mapsto>
               [[''id'' \<mapsto> JStr ''i1'', ''title'' \<mapsto> JStr ''X'', ''description'' \<mapsto> JStr ''Y'',
                 ''author'' \<mapsto> JStr ''A'', ''date'' \<mapsto> JStr ''January 01, 2024'',
                 ''likes'' \<mapsto> JInt 0, ''tags'' \<mapsto> JList [JStr ''go''],
                 ''userLiked'' \<mapsto> JBool False, ''likes'' \<mapsto> JInt 1]],
             ''likes'' \<mapsto>
               [[''id'' \<mapsto> JStr ''l1'', ''user_id'' \<mapsto> JStr ''anonymous'',
                 ''idea_id'' \<mapsto> JStr ''i1'', ''created_at'' \<mapsto> JStr ''2024-01-01T00:00:00'']]))"
  unfolding liked_idea_file_def one_idea_file_eq ideas_toggle_Stored ideas_storage_toggle_Stored
  by (simp add: coll_def has_id_def dict_get_def dict_get_d_def)

lemma liked_idea_file_facts:
  "index_of (has_id ''i1'') (collection liked_idea_file ''ideas'') = Some 0"
  "index_of (like_of ''i1'' ''anonymous'') (collection liked_idea_file ''likes'') = Some 0"
  "length (collection liked_idea_file ''likes'') = 1"
  "likes_counter (collection liked_idea_file ''ideas'' ! 0) = Some 1"
  by (simp_all add: liked_idea_file_eq coll_def has_id_def like_of_def dict_get_def dict_get_d_def
        likes_counter_def)

theorem likes_lock_step_witness:
  "ideas_reachable liked_idea_file \<and>
   like_unique (collection liked_idea_file ''likes'') \<and>
   counters_nonneg (collection liked_idea_file ''ideas'') \<and>
   index_of (has_id ''i1'') (collection liked_idea_file ''ideas'') = Some 0 \<and>
   (\<exists>r f'. IdeasFileStorage_toggle_like ''l2'' ''t2'' ''i1'' ''anonymous'' liked_idea_file =
              (Inr (Some r), f') \<and>
           collection f' ''likes'' = [] \<and>
           likes_counter (collection f' ''ideas'' ! 0) = Some 0)"
proof -
  note t = likes_lock_step [OF liked_idea_file_reachable]
  from t have 1: "like_unique (collection liked_idea_file ''likes'')"
    and 2: "counters_nonneg (collection liked_idea_file ''ideas'')" by blast+
  from t liked_idea_file_facts(1) obtain n r f' where
    s: "likes_counter (collection liked_idea_file ''ideas'' ! 0) = Some n"
       "IdeasFileStorage_toggle_like ''l2'' ''t2'' ''i1'' ''anonymous'' liked_idea_file =
          (Inr (Some r), f')"
       "(index_of (like_of ''i1'' ''anonymous'') (collection liked_idea_file ''likes'') = None \<and>
         collection f' ''likes'' =
           collection liked_idea_file ''likes'' @
             [[''id'' \<mapsto> JStr ''l2'', ''user_id'' \<mapsto> JStr ''anonymous'',
               ''idea_id'' \<mapsto> JStr ''i1'', ''created_at'' \<mapsto> JStr ''t2'']] \<and>
         collection f' ''ideas'' =
           (collection liked_idea_file ''ideas'')
             [0 := (collection liked_idea_file ''ideas'' ! 0)(''likes'' \<mapsto> JInt (n + 1))])
        \<or>
        (\<exists>j. index_of (like_of ''i1'' ''anonymous'') (collection liked_idea_file ''likes'') = Some j \<and>
             1 \<le> n \<and>
             collection f' ''likes'' = pop (collection liked_idea_file ''likes'') j \<and>
             collection f' ''ideas'' =
               (collection liked_idea_file ''ideas'')
                 [0 := (collection liked_idea_file ''ideas'' ! 0)(''likes'' \<mapsto> JInt (n - 1))])"
    by blast
  from s(1) liked_idea_file_facts(4) have n: "n = 1" by simp
  from index_of_SomeD [OF liked_idea_file_facts(1)]
  have len: "0 < length (collection liked_idea_file ''ideas'')" by simp
  from s(3) liked_idea_file_facts(2,3) n len
  have "collection f' ''likes'' = [] \<and> likes_counter (collection f' ''ideas'' ! 0) = Some 0"
    by (auto simp: pop_def)
  with liked_idea_file_reachable 1 2 liked_idea_file_facts(1) s(2) show ?thesis by blast
qed


lemma router_toggle_Some:
  "IdeasFileStorage_toggle_like uuid now a (case uo of None \<Rightarrow> ''anonymous'' | Some u \<Rightarrow> u)
     (Stored d) = (Inr (Some r), f') \<Longrightarrow>
   ideas_router_toggle_like uuid now a uo (Stored d) = (Inr r, f')"
  by (simp add: ideas_toggle_Stored)

text \<open>
  C10. The like route called without a user id performs \<open>toggle_like\<close> for the user
  \<^verbatim>\<open>anonymous\<close>. In a reachable state, for an idea that is present, two such calls in
  succession both succeed and leave every idea, with its likes counter, as it was before
  the first; the second response carries the counter the idea had at the start.
\<close>

theorem anonymous_like_twice:
  assumes "ideas_reachable f"
      and "index_of (has_id idea_id) (collection f ''ideas'') = Some i"
  shows "\<exists>r1 f1 r2 f2.
           ideas_router_toggle_like uuid1 now1 idea_id None f = (Inr r1, f1) \<and>
           IdeasFileStorage_toggle_like uuid1 now1 idea_id ''anonymous'' f = (Inr (Some r1), f1) \<and>
           ideas_router_toggle_like uuid2 now2 idea_id None f1 = (Inr r2, f2) \<and>
           IdeasFileStorage_toggle_like uuid2 now2 idea_id ''anonymous'' f1 = (Inr (Some r2), f2) \<and>
           collection f2 ''ideas'' = collection f ''ideas'' \<and>
           r2 ''likes'' = (collection f ''ideas'' ! i) ''likes''"
proof -
  from assms(1) obtain d where d: "f = Stored d" "ideas_inv (Stored d)"
    by (rule reachable_Stored)
  from assms(2) d have idx: "index_of (has_id idea_id) (coll d ''ideas'') = Some i" by simp
  from double_toggle [OF d(2) idx, of uuid1 now1 "''anonymous''" uuid2 now2]
  obtain r1 d1 r2 d2 where
    t: "IdeasFileStorage_toggle_like uuid1 now1 idea_id ''anonymous'' (Stored d) =
          (Inr (Some r1), Stored d1)"
       "IdeasFileStorage_toggle_like uuid2 now2 idea_id ''anonymous'' (Stored d1) =
          (Inr (Some r2), Stored d2)"
       "coll d2 ''ideas'' = coll d ''ideas''"
       "r2 ''likes'' = (coll d ''ideas'' ! i) ''likes''"
    by blast
  have 1: "ideas_router_toggle_like uuid1 now1 idea_id None (Stored d) = (Inr r1, Stored d1)"
    by (rule router_toggle_Some) (simp add: t(1))
  have 2: "ideas_router_toggle_like uuid2 now2 idea_id None (Stored d1) = (Inr r2, Stored d2)"
    by (rule router_toggle_Some) (simp add: t(2))
  from 1 2 t d(1) show ?thesis
    by (intro exI [of _ r1] exI [of _ "Stored d1"] exI [of _ r2] exI [of _ "Stored d2"]) simp
qed

theorem anonymous_like_twice_witness:
  "ideas_reachable liked_idea_file \<and>
   index_of (has_id ''i1'') (collection liked_idea_file ''ideas'') = Some 0 \<and>
   (\<exists>r1 f1 r2 f2.
      ideas_router_toggle_like ''l2'' ''t2'' ''i1'' None liked_idea_file = (Inr r1, f1) \<and>
      ideas_router_toggle_like ''l3'' ''t3'' ''i1'' None f1 = (Inr r2, f2) \<and>
      collection f2 ''ideas'' = collection liked_idea_file ''ideas'' \<and>
      likes_counter (collection f2 ''ideas'' ! 0) = Some 1)"
proof -
  from anonymous_like_twice [OF liked_idea_file_reachable liked_idea_file_facts(1),
      of "''l2''" "''t2''" "''l3''" "''t3''"]
  show ?thesis
    using liked_idea_file_reachable liked_idea_file_facts(1,4) by auto
qed

subsection \<open>Ideas: update and delete\<close>

lemma idea_updates_fields:
  "idea_updates u ''title'' = map_option JStr (iu_title u)"
  "idea_updates u ''description'' = map_option JStr (iu_description u)"
  "idea_updates u ''tags'' = map_option (\<lambda>ts. JList (map JStr ts)) (iu_tags u)"
  by (simp_all add: idea_updates_def Let_def split: option.splits)

text \<open>
  C8. Updating an existing idea succeeds and rewrites that idea only. Of title,
  description and tags, a field the request leaves out keeps its stored value, and a field
  the request supplies is overwritten with the supplied value, the empty string or the
  empty list included. Every other field of the idea (id, author, date and likes among
  them) and every other idea are unchanged.
\<close>

theorem update_idea_frame:
  assumes "index_of (has_id idea_id) (coll d ''ideas'') = Some i"
  shows "\<exists>r d'.
           ideas_router_update_idea idea_id u (Stored d) = (Inr r, Stored d') \<and>
           length (coll d' ''ideas'') = length (coll d ''ideas'') \<and>
           (coll d' ''ideas'' ! i) ''title'' =
             (case iu_title u of
                None \<Rightarrow> (coll d ''ideas'' ! i) ''title''
              | Some t \<Rightarrow> Some (JStr t)) \<and>
           (coll d' ''ideas'' ! i) ''description'' =
             (case iu_description u of
                None \<Rightarrow> (coll d ''ideas'' ! i) ''description''
              | Some t \<Rightarrow> Some (JStr t)) \<and>
           (coll d' ''ideas'' ! i) ''tags'' =
             (case iu_tags u of
                None \<Rightarrow> (coll d ''ideas'' ! i) ''tags''
              | Some ts \<Rightarrow> Some (JList (map JStr ts))) \<and>
           (\<forall>k. k \<noteq> ''title'' \<and> k \<noteq> ''description'' \<and> k \<noteq> ''tags'' \<longrightarrow>
                (coll d' ''ideas'' ! i) k = (coll d ''ideas'' ! i) k) \<and>
           (\<forall>j. j \<noteq> i \<longrightarrow> coll d' ''ideas'' ! j = coll d ''ideas'' ! j)"
proof -
  from index_of_SomeD [OF assms] have i: "i < length (coll d ''ideas'')" by simp
  let ?x = "coll d ''ideas'' ! i"
  let ?d' = "d(''ideas'' \<mapsto> (coll d ''ideas'')[i := ?x ++ idea_updates u])"
  have op: "ideas_router_update_idea idea_id u (Stored d) =
          (Inr ((?x ++ idea_updates u)
                  (''comments'' \<mapsto> JInt (int (length (filter (\<lambda>c. dict_get c ''idea_id'' = JStr idea_id)
                                                   (coll d ''comments'')))))),
           Stored ?d')"
    by (simp add: ideas_update_Stored assms)
  have x': "coll ?d' ''ideas'' ! i = ?x ++ idea_updates u" using i by simp
  have t: "(?x ++ idea_updates u) ''title'' =
             (case iu_title u of None \<Rightarrow> ?x ''title'' | Some t \<Rightarrow> Some (JStr t))"
    by (simp add: map_add_def idea_updates_fields split: option.splits)
  have ds: "(?x ++ idea_updates u) ''description'' =
             (case iu_description u of None \<Rightarrow> ?x ''description'' | Some t \<Rightarrow> Some (JStr t))"
    by (simp add: map_add_def idea_updates_fields split: option.splits)
  have tg: "(?x ++ idea_updates u) ''tags'' =
             (case iu_tags u of None \<Rightarrow> ?x ''tags'' | Some ts \<Rightarrow> Some (JList (map JStr ts)))"
    by (simp add: map_add_def idea_updates_fields split: option.splits)
  have other: "(?x ++ idea_updates u) k = ?x k"
    if "k \<noteq> ''title'' \<and> k \<noteq> ''description'' \<and> k \<noteq> ''tags''" for k
    using that by (simp add: map_add_def idea_updates_other)
  have rest: "coll ?d' ''ideas'' ! j = coll d ''ideas'' ! j" if "j \<noteq> i" for j
    using that by simp
  show ?thesis
    unfolding op
    apply (intro exI conjI)
          apply (rule refl)
    using x' t ds tg other rest
         apply simp_all
    done
qed

theorem update_idea_frame_witness:
  "index_of (has_id ''i1'') (coll
      [''ideas'' \<mapsto> [[''id'' \<mapsto> JStr ''i1'', ''title'' \<mapsto> JStr ''X'', ''description'' \<mapsto> JStr ''Y'',
                       ''author'' \<mapsto> JStr ''A'', ''likes'' \<mapsto> JInt 3,
                       ''tags'' \<mapsto> JList [JStr ''go'']]]] ''ideas'') = Some 0 \<and>
   (\<exists>r d'.
      ideas_router_update_idea ''i1''
        \<lparr>iu_title = Some [], iu_description = None, iu_tags = Some []\<rparr>
        (Stored [''ideas'' \<mapsto> [[''id'' \<mapsto> JStr ''i1'', ''title'' \<mapsto> JStr ''X'',
                                 ''description'' \<mapsto> JStr ''Y'', ''author'' \<mapsto> JStr ''A'',
                                 ''likes'' \<mapsto> JInt 3, ''tags'' \<mapsto> JList [JStr ''go'']]]])
        = (Inr r, Stored d') \<and>
      (coll d' ''ideas'' ! 0) ''title'' = Some (JStr []) \<and>
      (coll d' ''ideas'' ! 0) ''description'' = Some (JStr ''Y'') \<and>
      (coll d' ''ideas'' ! 0) ''tags'' = Some (JList []) \<and>
      (coll d' ''ideas'' ! 0) ''likes'' = Some (JInt 3) \<and>
      (coll d' ''ideas'' ! 0) ''author'' = Some (JStr ''A'') \<and>
      (coll d' ''ideas'' ! 0) ''id'' = Some (JStr ''i1''))"
proof -
  have h: "index_of (has_id ''i1'') (coll
      [''ideas'' \<mapsto> [[''id'' \<mapsto> JStr ''i1'', ''title'' \<mapsto> JStr ''X'', ''description'' \<mapsto> JStr ''Y'',
                       ''author'' \<mapsto> JStr ''A'', ''likes'' \<mapsto> JInt 3,
                       ''tags'' \<mapsto> JList [JStr ''go'']]]] ''ideas'') = Some 0"
    by (simp add: has_id_def dict_get_def dict_get_d_def coll_def)
  from update_idea_frame [OF h,
      of "\<lparr>iu_title = Some [], iu_description = None, iu_tags = Some []\<rparr>"]
  obtain r d' where
    a: "ideas_router_update_idea ''i1''
        \<lparr>iu_title = Some [], iu_description = None, iu_tags = Some []\<rparr>
        (Stored [''ideas'' \<mapsto> [[''id'' \<mapsto> JStr ''i1'', ''title'' \<mapsto> JStr ''X'',
                                 ''description'' \<mapsto> JStr ''Y'', ''author'' \<mapsto> JStr ''A'',
                                 ''likes'' \<mapsto> JInt 3, ''tags'' \<mapsto> JList [JStr ''go'']]]])
        = (Inr r, Stored d')"
       "(coll d' ''ideas'' ! 0) ''title'' = Some (JStr [])"
       "(coll d' ''ideas'' ! 0) ''description'' = Some (JStr ''Y'')"
       "(coll d' ''ideas'' ! 0) ''tags'' = Some (JList [])"
    and b: "\<forall>k. k \<noteq> ''title'' \<and> k \<noteq> ''description'' \<and> k \<noteq> ''tags'' \<longrightarrow>
          (coll d' ''ideas'' ! 0) k =
          (coll [''ideas'' \<mapsto> [[''id'' \<mapsto> JStr ''i1'', ''title'' \<mapsto> JStr ''X'',
                                 ''description'' \<mapsto> JStr ''Y'', ''author'' \<mapsto> JStr ''A'',
                                 ''likes'' \<mapsto> JInt 3, ''tags'' \<mapsto> JList [JStr ''go'']]]] ''ideas'' ! 0) k"
    by (auto simp: coll_def)
  from b have "(coll d' ''ideas'' ! 0) ''likes'' = Some (JInt 3)"
    "(coll d' ''ideas'' ! 0) ''author'' = Some (JStr ''A'')"
    "(coll d' ''ideas'' ! 0) ''id'' = Some (JStr ''i1'')"
    by (simp_all add: coll_def)
  with h a show ?thesis by blast
qed


text \<open>
  C5, as stated, fails on a document in which two ideas carry the same id: \<open>delete_idea\<close>
  removes the first of them and returns true, and the saved document still holds an idea
  with that id.
\<close>

theorem delete_idea_duplicate_id:
  "index_of (has_id ''a'')
     (coll [''ideas'' \<mapsto> [[''id'' \<mapsto> JStr ''a'', ''title'' \<mapsto> JStr ''first''],
                            [''id'' \<mapsto> JStr ''a'', ''title'' \<mapsto> JStr ''second'']],
            ''comments'' \<mapsto> [], ''likes'' \<mapsto> []] ''ideas'') = Some 0 \<and>
   fst (IdeasFileStorage_delete_idea ''a''
          (Stored [''ideas'' \<mapsto> [[''id'' \<mapsto> JStr ''a'', ''title'' \<mapsto> JStr ''first''],
                                 [''id'' \<mapsto> JStr ''a'', ''title'' \<mapsto> JStr ''second'']],
                   ''comments'' \<mapsto> [], ''likes'' \<mapsto> []])) = Inr True \<and>
   list_ex (has_id ''a'')
     (collection
        (snd (IdeasFileStorage_delete_idea ''a''
                (Stored [''ideas'' \<mapsto> [[''id'' \<mapsto> JStr ''a'', ''title'' \<mapsto> JStr ''first''],
                                       [''id'' \<mapsto> JStr ''a'', ''title'' \<mapsto> JStr ''second'']],
                         ''comments'' \<mapsto> [], ''likes'' \<mapsto> []])))
        ''ideas'')"
  by (simp add: ideas_storage_delete_Stored coll_def has_id_def dict_get_def dict_get_d_def
        pop_def)

text \<open>
  C5, amended. If an idea with the id exists, \<open>delete_idea\<close> returns true and the saved
  document has lost the first idea with that id, every comment and every like whose
  \<^verbatim>\<open>idea_id\<close> is that id, and nothing else; when no other idea carried the id, no idea
  with that id is left. If no idea with the id exists, \<open>delete_idea\<close> returns false and the
  file is unchanged.
\<close>

theorem delete_idea_cascade:
  "(index_of (has_id a) (coll d ''ideas'') = Some i \<longrightarrow>
      (\<exists>d'. IdeasFileStorage_delete_idea a (Stored d) = (Inr True, Stored d') \<and>
            coll d' ''ideas'' = pop (coll d ''ideas'') i \<and>
            coll d' ''comments'' =
              filter (\<lambda>c. dict_get c ''idea_id'' \<noteq> JStr a) (coll d ''comments'') \<and>
            coll d' ''likes'' =
              filter (\<lambda>l. dict_get l ''idea_id'' \<noteq> JStr a) (coll d ''likes'') \<and>
            \<not> list_ex (\<lambda>c. dict_get c ''idea_id'' = JStr a) (coll d' ''comments'') \<and>
            \<not> list_ex (\<lambda>l. dict_get l ''idea_id'' = JStr a) (coll d' ''likes'') \<and>
            (length (filter (has_id a) (coll d ''ideas'')) = 1 \<longrightarrow>
               \<not> list_ex (has_id a) (coll d' ''ideas'')))) \<and>
   (index_of (has_id a) (coll d ''ideas'') = None \<longrightarrow>
      IdeasFileStorage_delete_idea a (Stored d) = (Inr False, Stored d))"
proof (intro conjI impI)
  assume idx: "index_of (has_id a) (coll d ''ideas'') = Some i"
  let ?d' = "d(''ideas'' \<mapsto> pop (coll d ''ideas'') i,
               ''comments'' \<mapsto> filter (\<lambda>c. dict_get c ''idea_id'' \<noteq> JStr a) (coll d ''comments''),
               ''likes'' \<mapsto> filter (\<lambda>l. dict_get l ''idea_id'' \<noteq> JStr a) (coll d ''likes''))"
  from index_of_SomeD [OF idx] have i: "i < length (coll d ''ideas'')"
    "has_id a (coll d ''ideas'' ! i)" by auto
  have op: "IdeasFileStorage_delete_idea a (Stored d) = (Inr True, Stored ?d')"
    by (simp add: ideas_storage_delete_Stored idx)
  have one: "\<not> list_ex (has_id a) (pop (coll d ''ideas'') i)"
    if "length (filter (has_id a) (coll d ''ideas'')) = 1"
  proof -
    from length_filter_pop [of i "coll d ''ideas''" "has_id a", OF i] that
    have "filter (has_id a) (pop (coll d ''ideas'') i) = []" by simp
    then show ?thesis by (simp add: list_ex_iff filter_empty_conv)
  qed
  show "\<exists>d'. IdeasFileStorage_delete_idea a (Stored d) = (Inr True, Stored d') \<and>
            coll d' ''ideas'' = pop (coll d ''ideas'') i \<and>
            coll d' ''comments'' =
              filter (\<lambda>c. dict_get c ''idea_id'' \<noteq> JStr a) (coll d ''comments'') \<and>
            coll d' ''likes'' =
              filter (\<lambda>l. dict_get l ''idea_id'' \<noteq> JStr a) (coll d ''likes'') \<and>
            \<not> list_ex (\<lambda>c. dict_get c ''idea_id'' = JStr a) (coll d' ''comments'') \<and>
            \<not> list_ex (\<lambda>l. dict_get l ''idea_id'' = JStr a) (coll d' ''likes'') \<and>
            (length (filter (has_id a) (coll d ''ideas'')) = 1 \<longrightarrow>
               \<not> list_ex (has_id a) (coll d' ''ideas''))"
    unfolding op
    apply (intro exI conjI)
          apply (rule refl)
    using one
         apply (simp_all add: list_ex_iff)
    done
next
  assume "index_of (has_id a) (coll d ''ideas'') = None"
  then show "IdeasFileStorage_delete_idea a (Stored d) = (Inr False, Stored d)"
    by (simp add: ideas_storage_delete_Stored)
qed


theorem delete_idea_cascade_witness:
  "index_of (has_id ''a'') (coll
        [''ideas'' \<mapsto> [[''id'' \<mapsto> JStr ''a''], [''id'' \<mapsto> JStr ''b'']],
         ''comments'' \<mapsto> [[''idea_id'' \<mapsto> JStr ''a''], [''idea_id'' \<mapsto> JStr ''b'']],
         ''likes'' \<mapsto> [[''idea_id'' \<mapsto> JStr ''a'', ''user_id'' \<mapsto> JStr ''u'']]] ''ideas'') = Some 0 \<and>
   length (filter (has_id ''a'') (coll
        [''ideas'' \<mapsto> [[''id'' \<mapsto> JStr ''a''], [''id'' \<mapsto> JStr ''b'']],
         ''comments'' \<mapsto> [[''idea_id'' \<mapsto> JStr ''a''], [''idea_id'' \<mapsto> JStr ''b'']],
         ''likes'' \<mapsto> [[''idea_id'' \<mapsto> JStr ''a'', ''user_id'' \<mapsto> JStr ''u'']]] ''ideas'')) = 1 \<and>
   (\<exists>d'. IdeasFileStorage_delete_idea ''a'' (Stored
        [''ideas'' \<mapsto> [[''id'' \<mapsto> JStr ''a''], [''id'' \<mapsto> JStr ''b'']],
         ''comments'' \<mapsto> [[''idea_id'' \<mapsto> JStr ''a''], [''idea_id'' \<mapsto> JStr ''b'']],
         ''likes'' \<mapsto> [[''idea_id'' \<mapsto> JStr ''a'', ''user_id'' \<mapsto> JStr ''u'']]]) = (Inr True, Stored d') \<and>
      \<not> list_ex (has_id ''a'') (coll d' ''ideas'') \<and>
      length (coll d' ''ideas'') = 1 \<and>
      length (coll d' ''comments'') = 1 \<and>
      coll d' ''likes'' = []) \<and>
   index_of (has_id ''z'') (coll
        [''ideas'' \<mapsto> [[''id'' \<mapsto> JStr ''a''], [''id'' \<mapsto> JStr ''b'']],
         ''comments'' \<mapsto> [[''idea_id'' \<mapsto> JStr ''a''], [''idea_id'' \<mapsto> JStr ''b'']],
         ''likes'' \<mapsto> [[''idea_id'' \<mapsto> JStr ''a'', ''user_id'' \<mapsto> JStr ''u'']]] ''ideas'') = None \<and>
   IdeasFileStorage_delete_idea ''z'' (Stored
        [''ideas'' \<mapsto> [[''id'' \<mapsto> JStr ''a''], [''id'' \<mapsto> JStr ''b'']],
         ''comments'' \<mapsto> [[''idea_id'' \<mapsto> JStr ''a''], [''idea_id'' \<mapsto> JStr ''b'']],
         ''likes'' \<mapsto> [[''idea_id'' \<mapsto> JStr ''a'', ''user_id'' \<mapsto> JStr ''u'']]]) = (Inr False, Stored
        [''ideas'' \<mapsto> [[''id'' \<mapsto> JStr ''a''], [''id'' \<mapsto> JStr ''b'']],
         ''comments'' \<mapsto> [[''idea_id'' \<mapsto> JStr ''a''], [''idea_id'' \<mapsto> JStr ''b'']],
         ''likes'' \<mapsto> [[''idea_id'' \<mapsto> JStr ''a'', ''user_id'' \<mapsto> JStr ''u'']]])"
proof -
  have h1: "index_of (has_id ''a'') (coll
        [''ideas'' \<mapsto> [[''id'' \<mapsto> JStr ''a''], [''id'' \<mapsto> JStr ''b'']],
         ''comments'' \<mapsto> [[''idea_id'' \<mapsto> JStr ''a''], [''idea_id'' \<mapsto> JStr ''b'']],
         ''likes'' \<mapsto> [[''idea_id'' \<mapsto> JStr ''a'', ''user_id'' \<mapsto> JStr ''u'']]] ''ideas'') = Some 0"
    by (simp add: has_id_def dict_get_def dict_get_d_def coll_def)
  have h2: "length (filter (has_id ''a'') (coll
        [''ideas'' \<mapsto> [[''id'' \<mapsto> JStr ''a''], [''id'' \<mapsto> JStr ''b'']],
         ''comments'' \<mapsto> [[''idea_id'' \<mapsto> JStr ''a''], [''idea_id'' \<mapsto> JStr ''b'']],
         ''likes'' \<mapsto> [[''idea_id'' \<mapsto> JStr ''a'', ''user_id'' \<mapsto> JStr ''u'']]] ''ideas'')) = 1"
    by (simp add: has_id_def dict_get_def dict_get_d_def coll_def)
  have h3: "index_of (has_id ''z'') (coll
        [''ideas'' \<mapsto> [[''id'' \<mapsto> JStr ''a''], [''id'' \<mapsto> JStr ''b'']],
         ''comments'' \<mapsto> [[''idea_id'' \<mapsto> JStr ''a''], [''idea_id'' \<mapsto> JStr ''b'']],
         ''likes'' \<mapsto> [[''idea_id'' \<mapsto> JStr ''a'', ''user_id'' \<mapsto> JStr ''u'']]] ''ideas'') = None"
    by (simp add: has_id_def dict_get_def dict_get_d_def coll_def)
  from delete_idea_cascade [of "''a''"
        "[''ideas'' \<mapsto> [[''id'' \<mapsto> JStr ''a''], [''id'' \<mapsto> JStr ''b'']],
         ''comments'' \<mapsto> [[''idea_id'' \<mapsto> JStr ''a''], [''idea_id'' \<mapsto> JStr ''b'']],
         ''likes'' \<mapsto> [[''idea_id'' \<mapsto> JStr ''a'', ''user_id'' \<mapsto> JStr ''u'']]]" 0] h1 h2
  obtain d' where
    "IdeasFileStorage_delete_idea ''a'' (Stored
        [''ideas'' \<mapsto> [[''id'' \<mapsto> JStr ''a''], [''id'' \<mapsto> JStr ''b'']],
         ''comments'' \<mapsto> [[''idea_id'' \<mapsto> JStr ''a''], [''idea_id'' \<mapsto> JStr ''b'']],
         ''likes'' \<mapsto> [[''idea_id'' \<mapsto> JStr ''a'', ''user_id'' \<mapsto> JStr ''u'']]]) = (Inr True, Stored d')"
    "\<not> list_ex (has_id ''a'') (coll d' ''ideas'')"
    "coll d' ''ideas'' = pop (coll
        [''ideas'' \<mapsto> [[''id'' \<mapsto> JStr ''a''], [''id'' \<mapsto> JStr ''b'']],
         ''comments'' \<mapsto> [[''idea_id'' \<mapsto> JStr ''a''], [''idea_id'' \<mapsto> JStr ''b'']],
         ''likes'' \<mapsto> [[''idea_id'' \<mapsto> JStr ''a'', ''user_id'' \<mapsto> JStr ''u'']]] ''ideas'') 0"
    "coll d' ''comments'' = filter (\<lambda>c. dict_get c ''idea_id'' \<noteq> JStr ''a'') (coll
        [''ideas'' \<mapsto> [[''id'' \<mapsto> JStr ''a''], [''id'' \<mapsto> JStr ''b'']],
         ''comments'' \<mapsto> [[''idea_id'' \<mapsto> JStr ''a''], [''idea_id'' \<mapsto> JStr ''b'']],
         ''likes'' \<mapsto> [[''idea_id'' \<mapsto> JStr ''a'', ''user_id'' \<mapsto> JStr ''u'']]] ''comments'')"
    "coll d' ''likes'' = filter (\<lambda>l. dict_get l ''idea_id'' \<noteq> JStr ''a'') (coll
        [''ideas'' \<mapsto> [[''id'' \<mapsto> JStr ''a''], [''id'' \<mapsto> JStr ''b'']],
         ''comments'' \<mapsto> [[''idea_id'' \<mapsto> JStr ''a''], [''idea_id'' \<mapsto> JStr ''b'']],
         ''likes'' \<mapsto> [[''idea_id'' \<mapsto> JStr ''a'', ''user_id'' \<mapsto> JStr ''u'']]] ''likes'')"
    by blast
  then have e: "\<exists>d'. IdeasFileStorage_delete_idea ''a'' (Stored
        [''ideas'' \<mapsto> [[''id'' \<mapsto> JStr ''a''], [''id'' \<mapsto> JStr ''b'']],
         ''comments'' \<mapsto> [[''idea_id'' \<mapsto> JStr ''a''], [''idea_id'' \<mapsto> JStr ''b'']],
         ''likes'' \<mapsto> [[''idea_id'' \<mapsto> JStr ''a'', ''user_id'' \<mapsto> JStr ''u'']]]) = (Inr True, Stored d') \<and>
      \<not> list_ex (has_id ''a'') (coll d' ''ideas'') \<and>
      length (coll d' ''ideas'') = 1 \<and>
      length (coll d' ''comments'') = 1 \<and>
      coll d' ''likes'' = []"
    by (intro exI [of _ d']) (simp add: pop_def coll_def dict_get_def dict_get_d_def)
  from delete_idea_cascade [of "''z''"
        "[''ideas'' \<mapsto> [[''id'' \<mapsto> JStr ''a''], [''id'' \<mapsto> JStr ''b'']],
         ''comments'' \<mapsto> [[''idea_id'' \<mapsto> JStr ''a''], [''idea_id'' \<mapsto> JStr ''b'']],
         ''likes'' \<mapsto> [[''idea_id'' \<mapsto> JStr ''a'', ''user_id'' \<mapsto> JStr ''u'']]]" 0] h3
  have n: "IdeasFileStorage_delete_idea ''z'' (Stored
        [''ideas'' \<mapsto> [[''id'' \<mapsto> JStr ''a''], [''id'' \<mapsto> JStr ''b'']],
         ''comments'' \<mapsto> [[''idea_id'' \<mapsto> JStr ''a''], [''idea_id'' \<mapsto> JStr ''b'']],
         ''likes'' \<mapsto> [[''idea_id'' \<mapsto> JStr ''a'', ''user_id'' \<mapsto> JStr ''u'']]]) = (Inr False, Stored
        [''ideas'' \<mapsto> [[''id'' \<mapsto> JStr ''a''], [''id'' \<mapsto> JStr ''b'']],
         ''comments'' \<mapsto> [[''idea_id'' \<mapsto> JStr ''a''], [''idea_id'' \<mapsto> JStr ''b'']],
         ''likes'' \<mapsto> [[''idea_id'' \<mapsto> JStr ''a'', ''user_id'' \<mapsto> JStr ''u'']]])"
    by blast
  from h1 h2 e h3 n show ?thesis by blast
qed

subsection \<open>Posts: the order of a listing\<close>

text \<open>
  When the sort returns, its result is the values of the keyed posts taken in an order in
  which the instants of the keys descend.
\<close>

lemma sort_reverse_descending:
  "sort_reverse kxs = Inr xs \<Longrightarrow>
   xs = map snd (rev (sort_key (\<lambda>kx. snd (fst kx)) (rev kxs))) \<and>
   sorted (rev (map (\<lambda>kx. snd (fst kx)) (rev (sort_key (\<lambda>kx. snd (fst kx)) (rev kxs)))))"
  by (auto simp: sort_reverse_def rev_map split: if_splits)

end
